theory Spec2Isabelle
  imports Complex_Main
begin

section \<open>The DrQA document reader (src/rc/models/drqa.py)\<close>

text \<open>
  A shallow embedding of the class \<open>DrQA\<close>: its constructor \<open>__init__\<close>, which assembles
  the sub-modules from a configuration, and its method \<open>forward\<close>.

  Python integers are \<open>int\<close>, floats are idealised as \<open>real\<close>, strings are \<open>string\<close>.
  A raise is a value \<open>Inl e\<close> of a sum type. The configuration is a dictionary in the
  source; here it is a record holding every key that the class reads, so a missing key is
  excluded by the type.
\<close>

subsection \<open>Errors\<close>

datatype error =
    NotImplementedError string
  | KeyError string
  | AttributeError string
  | UnboundLocalError string
  | IndexError
  | RuntimeError
  | ValueError

subsection \<open>Configuration\<close>

record config =
  char_embed :: int
  fix_embeddings :: bool
  char_layer :: string
  dropout_char :: real
  variational_dropout :: bool
  filter_height :: int
  use_qemb :: bool
  num_features :: int
  resize_rnn_input :: bool
  hidden_size :: int
  num_layers :: int
  dropout_rnn :: real
  dropout_rnn_output :: bool
  concat_rnn_layers :: bool
  rnn_type :: string
  rnn_padding :: bool
  doc_self_attn :: bool
  question_merge :: string
  span_dependency :: bool
  word_dropout :: bool
  dropout_emb :: real
  dropout_ff :: real

subsection \<open>Tensors\<close>

text \<open>
  A tensor is its shape together with its indexing function. Only the entries inside the
  shape are meaningful.
\<close>

record 'a ten1 =
  len1 :: nat
  at1 :: "nat \<Rightarrow> 'a"

record 'a ten2 =
  rows2 :: nat
  cols2 :: nat
  at2 :: "nat \<Rightarrow> nat \<Rightarrow> 'a"

record 'a ten3 =
  dim0 :: nat
  dim1 :: nat
  dim2 :: nat
  at3 :: "nat \<Rightarrow> nat \<Rightarrow> nat \<Rightarrow> 'a"

subsection \<open>Embedding tables and the sub-modules built by the constructor\<close>

text \<open>
  \<open>nn.Embedding\<close>: an object with an identity (two values with the same \<open>obj_id\<close> stand
  for one object), a weight matrix (one row per id) and the autograd state of this only
  parameter: its \<open>requires_grad\<close> flag, and whether it is a leaf (a tensor that an
  operation recorded by autograd has written is no longer one). Its attribute
  \<open>embedding_dim\<close> is the width of the weight.
\<close>

record embedding =
  obj_id :: nat
  weight :: "real ten2"
  requires_grad :: bool
  is_leaf :: bool

definition embedding_dim :: "embedding \<Rightarrow> int" where
  "embedding_dim e = int (cols2 (weight e))"

text \<open>
  The classes of \<open>src.layers\<close> and \<open>nn.Linear\<close> are recorded by the arguments their
  constructors receive; the weights they allocate are not part of this model.
\<close>

record char_embedding_layer =
  cl_char_embedding :: "embedding option"
  cl_input_size :: int
  cl_hidden_size :: int
  cl_layer_type :: string
  cl_dropout :: real
  cl_variational_dropout :: bool
  cl_filter_height :: int

record seq_attn_match =
  sam_input_size :: int

record linear =
  in_features :: int
  out_features :: int
  bias :: bool

datatype rnn_class = LSTM | GRU | RNN

record stacked_brnn =
  rnn_input_size :: int
  rnn_hidden_size :: int
  rnn_num_layers :: int
  rnn_dropout_rate :: real
  rnn_dropout_output :: bool
  rnn_variational_dropout :: bool
  rnn_concat_layers :: bool
  rnn_rnn_type :: rnn_class
  rnn_padding_arg :: bool
  rnn_bidirectional :: bool

record linear_seq_attn =
  lsa_input_size :: int

record bilinear_seq_attn =
  x_size :: int
  y_size :: int

datatype module =
    CharEmbeddingLayer char_embedding_layer
  | SeqAttnMatch seq_attn_match
  | Linear linear
  | StackedBRNN stacked_brnn
  | LinearSeqAttn linear_seq_attn
  | BilinearSeqAttn bilinear_seq_attn

text \<open>The class attribute \<open>_RNN_TYPES\<close>, a dictionary.\<close>

definition RNN_TYPES :: "string \<rightharpoonup> rnn_class" where
  "RNN_TYPES = [''lstm'' \<mapsto> LSTM, ''gru'' \<mapsto> GRU, ''rnn'' \<mapsto> RNN]"

subsection \<open>The model and its constructor\<close>

record model =
  config :: config
  w_embedding :: embedding
  char_layer_mod :: "char_embedding_layer option"
  qemb_match :: "seq_attn_match option"
  doc_linear :: "linear option"
  q_linear :: "linear option"
  doc_rnn :: stacked_brnn
  question_rnn :: stacked_brnn
  doc_self_attn_mod :: "seq_attn_match option"
  self_attn :: "linear_seq_attn option"
  start_attn :: bilinear_seq_attn
  end_attn :: bilinear_seq_attn
  training :: bool

text \<open>
  What the constructor leaves behind whether or not it returns: the caller's word-embedding
  table (the loop at lines 19 to 21 writes its flag in place) and the sub-modules constructed
  so far, in the order of their construction.

  Line 21 assigns \<open>requires_grad\<close> of the weight; torch refuses the assignment on a tensor
  that is not a leaf with a \<open>RuntimeError\<close>. The write is in place, so it is seen through
  every reference to the object: a \<open>c_embedding\<close> that is the same object as \<open>w_embedding\<close>
  reaches the character layer as the table that line 21 has written.
\<close>

record init_effects =
  w_embedding_after :: embedding
  constructed :: "module list"

definition opt_list :: "'a option \<Rightarrow> ('a \<Rightarrow> 'b) \<Rightarrow> 'b list" where
  "opt_list x f = (case x of None \<Rightarrow> [] | Some v \<Rightarrow> [f v])"

definition new_stacked_brnn :: "config \<Rightarrow> int \<Rightarrow> rnn_class \<Rightarrow> stacked_brnn" where
  "new_stacked_brnn cfg inp cls =
     \<lparr>rnn_input_size = inp,
      rnn_hidden_size = hidden_size cfg,
      rnn_num_layers = num_layers cfg,
      rnn_dropout_rate = dropout_rnn cfg,
      rnn_dropout_output = dropout_rnn_output cfg,
      rnn_variational_dropout = variational_dropout cfg,
      rnn_concat_layers = concat_rnn_layers cfg,
      rnn_rnn_type = cls,
      rnn_padding_arg = rnn_padding cfg,
      rnn_bidirectional = True\<rparr>"

definition DrQA_init ::
  "config \<Rightarrow> embedding \<Rightarrow> embedding option \<Rightarrow> init_effects \<times> (error + model)" where
  "DrQA_init cfg w_emb c_embedding =
   (if fix_embeddings cfg \<and> \<not> is_leaf w_emb
    then (\<lparr>w_embedding_after = w_emb, constructed = []\<rparr>, Inl RuntimeError)
    else
    (let w = (if fix_embeddings cfg then w_emb\<lparr>requires_grad := False\<rparr> else w_emb);
         c_emb_obj = map_option (\<lambda>e. if obj_id e = obj_id w_emb then w else e) c_embedding;
         input_w_dim = embedding_dim w + char_embed cfg;
         q_input_size = input_w_dim;
         char_l = (if char_embed cfg \<noteq> 0
                   then Some \<lparr>cl_char_embedding = c_emb_obj,
                               cl_input_size = char_embed cfg,
                               cl_hidden_size = char_embed cfg,
                               cl_layer_type = char_layer cfg,
                               cl_dropout = dropout_char cfg,
                               cl_variational_dropout = variational_dropout cfg,
                               cl_filter_height = filter_height cfg\<rparr>
                   else None);
         qemb = (if use_qemb cfg then Some \<lparr>sam_input_size = input_w_dim\<rparr> else None);
         doc_input_size0 = input_w_dim + num_features cfg;
         doc_input_size1 = (if use_qemb cfg then doc_input_size0 + input_w_dim
                            else doc_input_size0);
         doc_lin = (if resize_rnn_input cfg
                    then Some \<lparr>in_features = doc_input_size1,
                                out_features = hidden_size cfg, bias = True\<rparr>
                    else None);
         q_lin = (if resize_rnn_input cfg
                  then Some \<lparr>in_features = input_w_dim,
                              out_features = hidden_size cfg, bias = True\<rparr>
                  else None);
         doc_input_size = (if resize_rnn_input cfg then hidden_size cfg else doc_input_size1);
         q_input_size' = (if resize_rnn_input cfg then hidden_size cfg else q_input_size);
         made1 = opt_list char_l CharEmbeddingLayer @ opt_list qemb SeqAttnMatch
                 @ opt_list doc_lin Linear @ opt_list q_lin Linear
     in case RNN_TYPES (rnn_type cfg) of
          None \<Rightarrow>
            (\<lparr>w_embedding_after = w, constructed = made1\<rparr>, Inl (KeyError (rnn_type cfg)))
        | Some cls \<Rightarrow>
           (let d_rnn = new_stacked_brnn cfg doc_input_size cls;
                q_rnn = new_stacked_brnn cfg q_input_size' cls;
                doc_hidden_size0 = 2 * hidden_size cfg;
                question_hidden_size0 = 2 * hidden_size cfg;
                doc_hidden_size1 = (if concat_rnn_layers cfg
                                    then doc_hidden_size0 * num_layers cfg
                                    else doc_hidden_size0);
                question_hidden_size = (if concat_rnn_layers cfg
                                        then question_hidden_size0 * num_layers cfg
                                        else question_hidden_size0);
                dsa = (if doc_self_attn cfg
                       then Some \<lparr>sam_input_size = doc_hidden_size1\<rparr> else None);
                doc_hidden_size = (if doc_self_attn cfg
                                   then doc_hidden_size1 + question_hidden_size
                                   else doc_hidden_size1);
                made2 = made1 @ [StackedBRNN d_rnn, StackedBRNN q_rnn]
                        @ opt_list dsa SeqAttnMatch
            in if question_merge cfg \<notin> set [''avg'', ''self_attn'']
               then (\<lparr>w_embedding_after = w, constructed = made2\<rparr>,
                     Inl (NotImplementedError (''question_merge = '' @ question_merge cfg)))
               else
                (let sa = (if question_merge cfg = ''self_attn''
                           then Some \<lparr>lsa_input_size = question_hidden_size\<rparr> else None);
                     s_attn = \<lparr>x_size = doc_hidden_size, y_size = question_hidden_size\<rparr>;
                     q_rep_size = (if span_dependency cfg
                                   then question_hidden_size + doc_hidden_size
                                   else question_hidden_size);
                     e_attn = \<lparr>x_size = doc_hidden_size, y_size = q_rep_size\<rparr>;
                     made3 = made2 @ opt_list sa LinearSeqAttn
                             @ [BilinearSeqAttn s_attn, BilinearSeqAttn e_attn]
                 in (\<lparr>w_embedding_after = w, constructed = made3\<rparr>,
                     Inr \<lparr>config = cfg,
                          w_embedding = w,
                          char_layer_mod = char_l,
                          qemb_match = qemb,
                          doc_linear = doc_lin,
                          q_linear = q_lin,
                          doc_rnn = d_rnn,
                          question_rnn = q_rnn,
                          doc_self_attn_mod = dsa,
                          self_attn = sa,
                          start_attn = s_attn,
                          end_attn = e_attn,
                          training = True\<rparr>)))))"

section \<open>The forward computation\<close>

subsection \<open>Effects: a raise, or a value and the state of the random generator\<close>

text \<open>
  Dropout draws from the global random generator. A computation of \<open>forward\<close> therefore
  takes the state of the generator and either raises or returns a value and the next state.
\<close>

type_synonym ('a, 'r) eff = "'r \<Rightarrow> error + ('a \<times> 'r)"

definition ret :: "'a \<Rightarrow> ('a, 'r) eff" where
  "ret x = (\<lambda>r. Inr (x, r))"

definition lift :: "error + 'a \<Rightarrow> ('a, 'r) eff" where
  "lift v = (\<lambda>r. case v of Inl e \<Rightarrow> Inl e | Inr x \<Rightarrow> Inr (x, r))"

definition bindE :: "('a, 'r) eff \<Rightarrow> ('a \<Rightarrow> ('b, 'r) eff) \<Rightarrow> ('b, 'r) eff" where
  "bindE f g = (\<lambda>r. case f r of Inl e \<Rightarrow> Inl e | Inr (x, r') \<Rightarrow> g x r')"

definition bindS :: "error + 'a \<Rightarrow> ('a \<Rightarrow> error + 'b) \<Rightarrow> error + 'b" where
  "bindS v g = (case v of Inl e \<Rightarrow> Inl e | Inr x \<Rightarrow> g x)"

text \<open>Reading an attribute that the constructor did not set, or a key the example lacks.\<close>

definition attr :: "string \<Rightarrow> 'a option \<Rightarrow> error + 'a" where
  "attr name v = (case v of None \<Rightarrow> Inl (AttributeError name) | Some x \<Rightarrow> Inr x)"

definition key :: "string \<Rightarrow> 'a option \<Rightarrow> error + 'a" where
  "key name v = (case v of None \<Rightarrow> Inl (KeyError name) | Some x \<Rightarrow> Inr x)"

subsection \<open>The operations of torch that forward calls\<close>

text \<open>
  \<open>nn.Embedding.__call__\<close>: one row of the weight per id; an id outside the table raises.
\<close>

definition Embedding_call :: "embedding \<Rightarrow> int ten2 \<Rightarrow> error + real ten3" where
  "Embedding_call e ids =
     (if list_all (\<lambda>b. list_all (\<lambda>i. 0 \<le> at2 ids b i \<and> at2 ids b i < int (rows2 (weight e)))
                              [0..<cols2 ids]) [0..<rows2 ids]
      then Inr \<lparr>dim0 = rows2 ids, dim1 = cols2 ids, dim2 = cols2 (weight e),
                at3 = (\<lambda>b i k. at2 (weight e) (nat (at2 ids b i)) k)\<rparr>
      else Inl IndexError)"

text \<open>\<open>torch.cat([a, b], 2)\<close> on 3-D tensors and \<open>torch.cat([a, b], 1)\<close> on 2-D tensors.\<close>

definition cat_dim2 :: "'a ten3 \<Rightarrow> 'a ten3 \<Rightarrow> error + 'a ten3" where
  "cat_dim2 a b =
     (if dim0 a = dim0 b \<and> dim1 a = dim1 b
      then Inr \<lparr>dim0 = dim0 a, dim1 = dim1 a, dim2 = dim2 a + dim2 b,
                at3 = (\<lambda>i j k. if k < dim2 a then at3 a i j k else at3 b i j (k - dim2 a))\<rparr>
      else Inl RuntimeError)"

definition cat_dim1 :: "'a ten2 \<Rightarrow> 'a ten2 \<Rightarrow> error + 'a ten2" where
  "cat_dim1 a b =
     (if rows2 a = rows2 b
      then Inr \<lparr>rows2 = rows2 a, cols2 = cols2 a + cols2 b,
                at2 = (\<lambda>i k. if k < cols2 a then at2 a i k else at2 b i (k - cols2 a))\<rparr>
      else Inl RuntimeError)"

text \<open>
  The slice assignment \<open>e.weight[1:, :] = v\<close> of line 137, on the table \<open>e\<close>. With gradients
  enabled (\<open>grad\<close>), autograd refuses to write in place into a leaf that requires a gradient
  and raises \<open>RuntimeError\<close>. Otherwise \<open>v\<close> is broadcast to the shape of the slice (a
  dimension of \<open>v\<close> of size 1 is repeated; another mismatch raises \<open>RuntimeError\<close>) and
  written; row 0 is left as it is. When gradients are enabled and \<open>v\<close> requires a gradient,
  the written weight requires one as well and is no longer a leaf.
\<close>

definition bidx :: "nat \<Rightarrow> nat \<Rightarrow> nat" where
  "bidx d i = (if d = 1 then 0 else i)"

definition set_rows_from_1 :: "bool \<Rightarrow> embedding \<Rightarrow> real ten2 \<Rightarrow> bool \<Rightarrow> error + embedding" where
  "set_rows_from_1 grad e v v_requires_grad =
     (let w = weight e in
      if grad \<and> requires_grad e \<and> is_leaf e then Inl RuntimeError
      else if (rows2 v = rows2 w - 1 \<or> rows2 v = 1) \<and> (cols2 v = cols2 w \<or> cols2 v = 1)
      then Inr (e\<lparr>weight :=
                     w\<lparr>at2 := (\<lambda>i j. if 1 \<le> i \<and> i < rows2 w \<and> j < cols2 w
                                      then at2 v (bidx (rows2 v) (i - 1)) (bidx (cols2 v) j)
                                      else at2 w i j)\<rparr>,
                   requires_grad := requires_grad e \<or> (grad \<and> v_requires_grad),
                   is_leaf := is_leaf e \<and> \<not> (grad \<and> v_requires_grad)\<rparr>)
      else Inl RuntimeError)"

definition relu :: "real ten3 \<Rightarrow> real ten3" where
  "relu x = x\<lparr>at3 := (\<lambda>i j k. max 0 (at3 x i j k))\<rparr>"

text \<open>\<open>t.exp()\<close>, \<open>t.unsqueeze(2)\<close>, the broadcasting product \<open>a * b\<close> and \<open>t.sum(1)\<close>.\<close>

definition exp_ten :: "real ten2 \<Rightarrow> real ten2" where
  "exp_ten t = t\<lparr>at2 := (\<lambda>i j. exp (at2 t i j))\<rparr>"

definition unsqueeze2 :: "'a ten2 \<Rightarrow> 'a ten3" where
  "unsqueeze2 t = \<lparr>dim0 = rows2 t, dim1 = cols2 t, dim2 = 1, at3 = (\<lambda>i j k. at2 t i j)\<rparr>"

definition bdim :: "nat \<Rightarrow> nat \<Rightarrow> nat option" where
  "bdim a b = (if a = b then Some a else if a = 1 then Some b
               else if b = 1 then Some a else None)"

definition mul_ten :: "real ten3 \<Rightarrow> real ten3 \<Rightarrow> error + real ten3" where
  "mul_ten a b =
     (case (bdim (dim0 a) (dim0 b), bdim (dim1 a) (dim1 b), bdim (dim2 a) (dim2 b)) of
        (Some n0, Some n1, Some n2) \<Rightarrow>
          Inr \<lparr>dim0 = n0, dim1 = n1, dim2 = n2,
               at3 = (\<lambda>i j k. at3 a (bidx (dim0 a) i) (bidx (dim1 a) j) (bidx (dim2 a) k)
                              * at3 b (bidx (dim0 b) i) (bidx (dim1 b) j) (bidx (dim2 b) k))\<rparr>
      | _ \<Rightarrow> Inl RuntimeError)"

definition sum_dim1 :: "real ten3 \<Rightarrow> real ten2" where
  "sum_dim1 t = \<lparr>rows2 = dim0 t, cols2 = dim2 t, at2 = (\<lambda>i k. \<Sum>j<dim1 t. at3 t i j k)\<rparr>"

text \<open>
  A float of Python: a number, or the not-a-number that \<open>0.0 / 0\<close> gives on tensors.
\<close>

datatype pyfloat = Float real | NaN

text \<open>\<open>(t >= 0).float().sum()\<close> on a 1-D tensor of integers.\<close>

definition count_nonneg :: "int ten1 \<Rightarrow> real" where
  "count_nonneg t = real (length (filter (\<lambda>i. 0 \<le> at1 t i) [0..<len1 t]))"

text \<open>
  Line 183: the sum over an empty tensor is \<open>0.0\<close>, and dividing it by the length 0 gives
  not-a-number rather than raising.
\<close>

definition chunk_acc_of :: "int ten1 \<Rightarrow> pyfloat" where
  "chunk_acc_of t = (if len1 t = 0 then NaN else Float (count_nonneg t / real (len1 t)))"

subsection \<open>The layers of src.layers and the weights of the sub-modules\<close>

text \<open>
  The module \<open>src.layers\<close> is not part of the sources at hand, and the weights of the
  sub-modules are allocated by their constructors. The forward functions of the sub-modules
  (with their weights), the two plain functions \<open>uniform_weights\<close> and \<open>weighted_avg\<close>, the
  function \<open>layers.dropout\<close> and the sampling of a dropout mask by torch are parameters of
  the model. A sub-module receives what the constructor recorded for it and the training
  flag, which \<open>nn.Module.train\<close> hands down to every sub-module. Two facts of autograd are
  parameters as well: whether gradients are enabled during the call
  (\<open>torch.is_grad_enabled\<close>), and whether some parameter of the character layer requires a
  gradient, so that with gradients enabled its output does.
\<close>

record 'r layers =
  layers_dropout :: "real ten3 \<Rightarrow> real \<Rightarrow> nat list \<Rightarrow> bool \<Rightarrow> (real ten3, 'r) eff"
  char_layer_call ::
    "char_embedding_layer \<Rightarrow> bool \<Rightarrow> int ten2 \<Rightarrow> bool ten2 \<Rightarrow> (real ten2, 'r) eff"
  qemb_match_call ::
    "seq_attn_match \<Rightarrow> bool \<Rightarrow> real ten3 \<Rightarrow> real ten3 \<Rightarrow> bool ten2 \<Rightarrow> (real ten3, 'r) eff"
  doc_linear_call :: "linear \<Rightarrow> real ten3 \<Rightarrow> error + real ten3"
  q_linear_call :: "linear \<Rightarrow> real ten3 \<Rightarrow> error + real ten3"
  doc_rnn_call :: "stacked_brnn \<Rightarrow> bool \<Rightarrow> real ten3 \<Rightarrow> bool ten2 \<Rightarrow> (real ten3, 'r) eff"
  question_rnn_call ::
    "stacked_brnn \<Rightarrow> bool \<Rightarrow> real ten3 \<Rightarrow> bool ten2 \<Rightarrow> (real ten3, 'r) eff"
  doc_self_attn_call ::
    "seq_attn_match \<Rightarrow> bool \<Rightarrow> real ten3 \<Rightarrow> real ten3 \<Rightarrow> bool ten2 \<Rightarrow> (real ten3, 'r) eff"
  uniform_weights :: "real ten3 \<Rightarrow> bool ten2 \<Rightarrow> error + real ten2"
  self_attn_call :: "linear_seq_attn \<Rightarrow> bool \<Rightarrow> real ten3 \<Rightarrow> bool ten2 \<Rightarrow> (real ten2, 'r) eff"
  weighted_avg :: "real ten3 \<Rightarrow> real ten2 \<Rightarrow> error + real ten2"
  start_attn_call ::
    "bilinear_seq_attn \<Rightarrow> bool \<Rightarrow> real ten3 \<Rightarrow> real ten2 \<Rightarrow> bool ten2 \<Rightarrow> (real ten2, 'r) eff"
  end_attn_call ::
    "bilinear_seq_attn \<Rightarrow> bool \<Rightarrow> real ten3 \<Rightarrow> real ten2 \<Rightarrow> bool ten2 \<Rightarrow> (real ten2, 'r) eff"
  bernoulli :: "real \<Rightarrow> nat \<times> nat \<times> nat \<Rightarrow> 'r \<Rightarrow> (nat \<Rightarrow> nat \<Rightarrow> nat \<Rightarrow> bool) \<times> 'r"
  grad_enabled :: bool
  char_layer_requires_grad :: "char_embedding_layer \<Rightarrow> bool"

text \<open>
  \<open>F.dropout(x, p, training)\<close> of torch: a probability outside \<open>[0, 1]\<close> raises; in training
  a keep-mask is drawn with probability \<open>1 - p\<close> per entry (\<open>bernoulli\<close>), the kept entries
  are divided by \<open>1 - p\<close> and the others are zero; otherwise the input is returned. Line 158
  and line 159 pass no \<open>p\<close>, so the default \<open>0.5\<close> applies there.
\<close>

definition F_dropout :: "'r layers \<Rightarrow> real ten3 \<Rightarrow> real \<Rightarrow> bool \<Rightarrow> (real ten3, 'r) eff" where
  "F_dropout L x p train =
     (\<lambda>r. if p < 0 \<or> 1 < p then Inl ValueError
          else if train
          then (case bernoulli L (1 - p) (dim0 x, dim1 x, dim2 x) r of
                  (keep, r') \<Rightarrow>
                    Inr (x\<lparr>at3 := (\<lambda>i j k. if keep i j k then at3 x i j k / (1 - p) else 0)\<rparr>,
                         r'))
          else Inr (x, r))"

definition F_dropout_default_p :: real where
  "F_dropout_default_p = 0.5"

subsection \<open>The example and the result of forward\<close>

text \<open>
  The keys of the dictionary \<open>ex\<close>. The keys that forward reads only under a configuration
  flag are optional; reading an absent one raises \<open>KeyError\<close>. \<open>c_layer_lookup\<close> is an
  \<open>nn.Embedding\<close> owned by the caller, an object other than the tables of the model.
\<close>

record example =
  xq :: "int ten2"
  xq_mask :: "bool ten2"
  xd :: "int ten2"
  xd_f :: "real ten3 option"
  xd_mask :: "bool ten2"
  targets :: "int ten2"
  chunk_targets :: "int ten1"
  c_emb :: "int ten2 option"
  c_emb_mask :: "bool ten2 option"
  c_layer_lookup :: "embedding option"
  xqc :: "int ten2 option"
  xdc :: "int ten2 option"

record forward_output =
  score_s :: "real ten2"
  score_e :: "real ten2"
  targets_out :: "int ten2"
  chunk_target_acc :: pyfloat
  chunk_any_acc :: pyfloat

subsection \<open>forward, block by block\<close>

text \<open>Lines 124 to 129: word embeddings of question and document, with dropout.\<close>

definition embed_words ::
  "'r layers \<Rightarrow> model \<Rightarrow> example \<Rightarrow> (real ten3 \<times> real ten3, 'r) eff" where
  "embed_words L m ex =
     bindE (lift (Embedding_call (w_embedding m) (xq ex))) (\<lambda>xq_emb.
     bindE (lift (Embedding_call (w_embedding m) (xd ex))) (\<lambda>xd_emb.
     let shared_axes = (if word_dropout (config m) then [2] else []) in
     bindE (layers_dropout L xq_emb (dropout_emb (config m)) shared_axes (training m))
       (\<lambda>xq_emb'.
     bindE (layers_dropout L xd_emb (dropout_emb (config m)) shared_axes (training m))
       (\<lambda>xd_emb'.
     ret (xq_emb', xd_emb')))))"

text \<open>
  Lines 134 to 141: character embeddings. The encodings of the unique words are written into
  rows 1 and up of the weight of the caller's lookup table, which is then indexed. The
  example is returned with the table as the call leaves it: its weight and the autograd
  state of its weight.
\<close>

definition char_embeddings ::
  "'r layers \<Rightarrow> model \<Rightarrow> example \<Rightarrow> real ten3 \<Rightarrow> real ten3
     \<Rightarrow> (real ten3 \<times> real ten3 \<times> example, 'r) eff" where
  "char_embeddings L m ex xq_emb xd_emb =
     (if char_embed (config m) > 0
      then
        bindE (lift (attr ''char_layer'' (char_layer_mod m))) (\<lambda>cl.
        bindE (lift (key ''c_emb'' (c_emb ex))) (\<lambda>ce.
        bindE (lift (key ''c_emb_mask'' (c_emb_mask ex))) (\<lambda>cm.
        bindE (char_layer_call L cl (training m) ce cm) (\<lambda>xc_rep.
        bindE (lift (key ''c_layer_lookup'' (c_layer_lookup ex))) (\<lambda>lookup.
        bindE (lift (set_rows_from_1 (grad_enabled L) lookup xc_rep
                       (grad_enabled L \<and> char_layer_requires_grad L cl))) (\<lambda>lookup'.
        let ex' = ex\<lparr>c_layer_lookup := Some lookup'\<rparr> in
        bindE (lift (key ''xqc'' (xqc ex'))) (\<lambda>qc.
        bindE (lift (Embedding_call lookup' qc)) (\<lambda>xqc_emb.
        bindE (lift (key ''xdc'' (xdc ex'))) (\<lambda>dc.
        bindE (lift (Embedding_call lookup' dc)) (\<lambda>xdc_emb.
        bindE (lift (cat_dim2 xq_emb xqc_emb)) (\<lambda>xq_emb'.
        bindE (lift (cat_dim2 xd_emb xdc_emb)) (\<lambda>xd_emb'.
        ret (xq_emb', xd_emb', ex')))))))))))))
      else ret (xq_emb, xd_emb, ex))"

text \<open>Lines 144 to 151: the question-aware embedding and the manual features.\<close>

definition doc_rnn_input ::
  "'r layers \<Rightarrow> model \<Rightarrow> example \<Rightarrow> real ten3 \<Rightarrow> real ten3 \<Rightarrow> (real ten3, 'r) eff" where
  "doc_rnn_input L m ex xd_emb xq_emb =
     bindE (if use_qemb (config m)
            then bindE (lift (attr ''qemb_match'' (qemb_match m))) (\<lambda>qm.
                 bindE (qemb_match_call L qm (training m) xd_emb xq_emb (xq_mask ex))
                   (\<lambda>xq_weighted_emb.
                 lift (cat_dim2 xd_emb xq_weighted_emb)))
            else ret xd_emb) (\<lambda>drnn_input.
     if num_features (config m) > 0
     then bindE (lift (key ''xd_f'' (xd_f ex))) (\<lambda>f. lift (cat_dim2 drnn_input f))
     else ret drnn_input)"

text \<open>Lines 154 to 159: the input projection.\<close>

definition project_inputs ::
  "'r layers \<Rightarrow> model \<Rightarrow> real ten3 \<Rightarrow> real ten3 \<Rightarrow> (real ten3 \<times> real ten3, 'r) eff" where
  "project_inputs L m drnn_input xq_emb =
     (if resize_rnn_input (config m)
      then
        bindE (lift (attr ''doc_linear'' (doc_linear m))) (\<lambda>dl.
        bindE (lift (doc_linear_call L dl drnn_input)) (\<lambda>d.
        let drnn_input' = relu d in
        bindE (lift (attr ''q_linear'' (q_linear m))) (\<lambda>ql.
        bindE (lift (q_linear_call L ql xq_emb)) (\<lambda>q.
        let xq_emb' = relu q in
        if dropout_ff (config m) > 0
        then bindE (F_dropout L drnn_input' F_dropout_default_p (training m)) (\<lambda>drnn_input''.
             bindE (F_dropout L xq_emb' F_dropout_default_p (training m)) (\<lambda>xq_emb''.
             ret (drnn_input'', xq_emb'')))
        else ret (drnn_input', xq_emb')))))
      else ret (drnn_input, xq_emb))"

text \<open>Lines 162 to 167: the document encoder and the document self-attention.\<close>

definition encode_doc ::
  "'r layers \<Rightarrow> model \<Rightarrow> example \<Rightarrow> real ten3 \<Rightarrow> (real ten3, 'r) eff" where
  "encode_doc L m ex drnn_input =
     bindE (doc_rnn_call L (doc_rnn m) (training m) drnn_input (xd_mask ex)) (\<lambda>doc_hiddens.
     if doc_self_attn (config m)
     then bindE (lift (attr ''doc_self_attn'' (doc_self_attn_mod m))) (\<lambda>dsa.
          bindE (doc_self_attn_call L dsa (training m) doc_hiddens doc_hiddens (xd_mask ex))
            (\<lambda>xd_weighted_emb.
          lift (cat_dim2 doc_hiddens xd_weighted_emb)))
     else ret doc_hiddens)"

text \<open>
  Lines 170 to 175: the question encoder and the merge. With a \<open>question_merge\<close> that is
  neither \<open>avg\<close> nor \<open>self_attn\<close> the variable \<open>q_merge_weights\<close> is unbound at line 175.
\<close>

definition merge_question ::
  "'r layers \<Rightarrow> model \<Rightarrow> example \<Rightarrow> real ten3 \<Rightarrow> (real ten2, 'r) eff" where
  "merge_question L m ex xq_emb =
     bindE (question_rnn_call L (question_rnn m) (training m) xq_emb (xq_mask ex))
       (\<lambda>question_hiddens.
     bindE (if question_merge (config m) = ''avg''
            then lift (uniform_weights L question_hiddens (xq_mask ex))
            else if question_merge (config m) = ''self_attn''
            then bindE (lift (attr ''self_attn'' (self_attn m))) (\<lambda>sa.
                 self_attn_call L sa (training m) question_hiddens (xq_mask ex))
            else lift (Inl (UnboundLocalError ''q_merge_weights''))) (\<lambda>q_merge_weights.
     lift (weighted_avg L question_hiddens q_merge_weights)))"

text \<open>Lines 179 and 180: the question vector that the end scorer receives.\<close>

definition span_question ::
  "config \<Rightarrow> real ten2 \<Rightarrow> real ten3 \<Rightarrow> real ten2 \<Rightarrow> error + real ten2" where
  "span_question cfg question_hidden doc_hiddens start_scores =
     (if span_dependency cfg
      then bindS (mul_ten doc_hiddens (unsqueeze2 (exp_ten start_scores))) (\<lambda>p.
           cat_dim1 question_hidden (sum_dim1 p))
      else Inr question_hidden)"

text \<open>
  The method \<open>forward\<close>. It returns the dictionary of line 185 and the example as the call
  leaves it; when it raises, only the error is kept.
\<close>

definition forward ::
  "'r layers \<Rightarrow> model \<Rightarrow> example \<Rightarrow> (forward_output \<times> example, 'r) eff" where
  "forward L m ex =
     bindE (embed_words L m ex) (\<lambda>(xq_emb, xd_emb).
     bindE (char_embeddings L m ex xq_emb xd_emb) (\<lambda>(xq_emb1, xd_emb1, ex').
     bindE (doc_rnn_input L m ex' xd_emb1 xq_emb1) (\<lambda>drnn_input.
     bindE (project_inputs L m drnn_input xq_emb1) (\<lambda>(drnn_input', xq_emb2).
     bindE (encode_doc L m ex' drnn_input') (\<lambda>doc_hiddens.
     bindE (merge_question L m ex' xq_emb2) (\<lambda>question_hidden.
     bindE (start_attn_call L (start_attn m) (training m) doc_hiddens question_hidden
              (xd_mask ex')) (\<lambda>start_scores.
     bindE (lift (span_question (config m) question_hidden doc_hiddens start_scores))
       (\<lambda>question_hidden'.
     bindE (end_attn_call L (end_attn m) (training m) doc_hiddens question_hidden'
              (xd_mask ex')) (\<lambda>end_scores.
     let chunk_acc = chunk_acc_of (chunk_targets ex') in
     ret (\<lparr>score_s = start_scores,
           score_e = end_scores,
           targets_out = targets ex',
           chunk_target_acc = chunk_acc,
           chunk_any_acc = chunk_acc\<rparr>, ex'))))))))))"

text \<open>The part of forward after the character embeddings, lines 143 to 189.\<close>

definition after_char ::
  "'r layers \<Rightarrow> model \<Rightarrow> real ten3 \<times> real ten3 \<times> example
     \<Rightarrow> (forward_output \<times> example, 'r) eff" where
  "after_char L m =
     (\<lambda>(xq_emb1, xd_emb1, ex').
     bindE (doc_rnn_input L m ex' xd_emb1 xq_emb1) (\<lambda>drnn_input.
     bindE (project_inputs L m drnn_input xq_emb1) (\<lambda>(drnn_input', xq_emb2).
     bindE (encode_doc L m ex' drnn_input') (\<lambda>doc_hiddens.
     bindE (merge_question L m ex' xq_emb2) (\<lambda>question_hidden.
     bindE (start_attn_call L (start_attn m) (training m) doc_hiddens question_hidden
              (xd_mask ex')) (\<lambda>start_scores.
     bindE (lift (span_question (config m) question_hidden doc_hiddens start_scores))
       (\<lambda>question_hidden'.
     bindE (end_attn_call L (end_attn m) (training m) doc_hiddens question_hidden'
              (xd_mask ex')) (\<lambda>end_scores.
     let chunk_acc = chunk_acc_of (chunk_targets ex') in
     ret (\<lparr>score_s = start_scores,
           score_e = end_scores,
           targets_out = targets ex',
           chunk_target_acc = chunk_acc,
           chunk_any_acc = chunk_acc\<rparr>, ex')))))))))"

subsection \<open>Contracts of the absent layers and the parameter update\<close>

text \<open>
  Modelled from the spec: the optimiser and the training loop are not among the sources. The
  spec says of a frozen embedding table that it "must never receive gradient-driven updates",
  and tests this with "a simulated parameter-update step". On one table, the step applies an
  arbitrary update \<open>upd\<close> to the weight when the parameter requires a gradient and leaves
  the table alone otherwise.
\<close>

definition update_table :: "(real ten2 \<Rightarrow> real ten2) \<Rightarrow> embedding \<Rightarrow> embedding" where
  "update_table upd e = (if requires_grad e then e\<lparr>weight := upd (weight e)\<rparr> else e)"

text \<open>
  Modelled from the spec: the "simulated parameter-update step" on the model, which updates
  each embedding table that the model holds (the weights of the other sub-modules are not
  part of this model).
\<close>

definition parameter_update_step :: "(real ten2 \<Rightarrow> real ten2) \<Rightarrow> model \<Rightarrow> model" where
  "parameter_update_step upd m =
     m\<lparr>w_embedding := update_table upd (w_embedding m),
       char_layer_mod :=
         map_option (\<lambda>cl. cl\<lparr>cl_char_embedding :=
                              map_option (update_table upd) (cl_char_embedding cl)\<rparr>)
                    (char_layer_mod m)\<rparr>"

text \<open>
  Modelled from the spec: frozen weights "remain structurally part of the serialized
  parameter set". The embedding tables in the parameter set of the model are the tables it
  holds, whether or not they require a gradient.
\<close>

definition parameter_tables :: "model \<Rightarrow> embedding list" where
  "parameter_tables m =
     w_embedding m #
     (case char_layer_mod m of
        None \<Rightarrow> []
      | Some cl \<Rightarrow> (case cl_char_embedding cl of None \<Rightarrow> [] | Some e \<Rightarrow> [e]))"

text \<open>
  The outcome of a computation (its error, or its value) does not depend on the state of the
  random generator; two computations have the same outcome whatever the states.
\<close>

definition rng_free :: "('a, 'r) eff \<Rightarrow> bool" where
  "rng_free f = (\<forall>r r'. map_sum id fst (f r) = map_sum id fst (f r'))"

definition same_outcome :: "('a, 'r) eff \<Rightarrow> ('a, 'r) eff \<Rightarrow> bool" where
  "same_outcome f g = (\<forall>r r'. map_sum id fst (f r) = map_sum id fst (g r'))"

text \<open>
  Modelled from the spec: \<open>src.layers\<close> is not among the sources. The spec says that the
  dropout inside the layers applies "only in training mode" and that "the only
  non-determinism is pseudo-random dropout-mask sampling". So with the training flag off the
  outcome of every layer does not depend on the state of the random generator.
\<close>

definition eval_deterministic :: "'r layers \<Rightarrow> bool" where
  "eval_deterministic L =
     ((\<forall>x p axes. rng_free (layers_dropout L x p axes False))
    \<and> (\<forall>cl ce cm. rng_free (char_layer_call L cl False ce cm))
    \<and> (\<forall>d x y mk. rng_free (qemb_match_call L d False x y mk))
    \<and> (\<forall>d x mk. rng_free (doc_rnn_call L d False x mk))
    \<and> (\<forall>d x mk. rng_free (question_rnn_call L d False x mk))
    \<and> (\<forall>d x y mk. rng_free (doc_self_attn_call L d False x y mk))
    \<and> (\<forall>d x mk. rng_free (self_attn_call L d False x mk))
    \<and> (\<forall>d x y mk. rng_free (start_attn_call L d False x y mk))
    \<and> (\<forall>d x y mk. rng_free (end_attn_call L d False x y mk)))"

text \<open>
  A 3-D tensor with the batch size and the sequence length of another, and a 2-D tensor of
  one entry per position of a 3-D tensor.
\<close>

definition keeps_positions :: "real ten3 \<Rightarrow> real ten3 \<Rightarrow> bool" where
  "keeps_positions x y = (dim0 y = dim0 x \<and> dim1 y = dim1 x)"

definition scores_positions :: "real ten3 \<Rightarrow> real ten2 \<Rightarrow> bool" where
  "scores_positions x y = (rows2 y = dim0 x \<and> cols2 y = dim1 x)"

text \<open>
  Modelled from the spec: the shapes that the absent layers return. Dropout, the document
  projection (\<open>nn.Linear\<close>, which acts on the last dimension) and the document encoder keep
  the batch size and the sequence length of their input (the spec: the encoder "returns, per
  position, ..."), and a span scorer returns one score per document position, of shape
  (batch, document length).
\<close>

definition shape_contract :: "'r layers \<Rightarrow> bool" where
  "shape_contract L =
     ((\<forall>x p axes t r y r'. layers_dropout L x p axes t r = Inr (y, r') \<longrightarrow> keeps_positions x y)
    \<and> (\<forall>l x y. doc_linear_call L l x = Inr y \<longrightarrow> keeps_positions x y)
    \<and> (\<forall>d t x mk r y r'. doc_rnn_call L d t x mk r = Inr (y, r') \<longrightarrow> keeps_positions x y)
    \<and> (\<forall>d t x q mk r y r'. start_attn_call L d t x q mk r = Inr (y, r')
          \<longrightarrow> scores_positions x y)
    \<and> (\<forall>d t x q mk r y r'. end_attn_call L d t x q mk r = Inr (y, r')
          \<longrightarrow> scores_positions x y))"

subsection \<open>Example inputs\<close>

text \<open>
  A small configuration (all optional parts off, uniform question averaging) and a word
  embedding table of three rows of width two, used to evaluate the definitions.
\<close>

definition cfg0 :: config where
  "cfg0 = \<lparr>char_embed = 0, fix_embeddings = False, char_layer = ''cnn'', dropout_char = 0,
     variational_dropout = False, filter_height = 5, use_qemb = False, num_features = 0,
     resize_rnn_input = False, hidden_size = 3, num_layers = 2, dropout_rnn = 0,
     dropout_rnn_output = False, concat_rnn_layers = False, rnn_type = ''lstm'',
     rnn_padding = False, doc_self_attn = False, question_merge = ''avg'',
     span_dependency = False, word_dropout = False, dropout_emb = 0, dropout_ff = 0\<rparr>"

definition of_rows :: "nat \<Rightarrow> 'a list list \<Rightarrow> 'a ten2" where
  "of_rows c xs = \<lparr>rows2 = length xs, cols2 = c, at2 = (\<lambda>i j. xs ! i ! j)\<rparr>"

definition emb0 :: embedding where
  "emb0 = \<lparr>obj_id = 1, weight = of_rows 2 [[0, 0], [1, 2], [3, 4]], requires_grad = True,
            is_leaf = True\<rparr>"

definition cfg1 :: config where
  "cfg1 = cfg0\<lparr>char_embed := 4, use_qemb := True, num_features := 3, concat_rnn_layers := True,
     doc_self_attn := True, question_merge := ''self_attn'', span_dependency := True\<rparr>"

text \<open>
  Stand-ins for the layers, with a counter as the state of the random generator: the encoders
  and the attention matchers return their first input, the projections keep the first
  \<open>out_features\<close> columns shifted by \<open>- 1\<close>, the merge weights are uniform, the weighted
  average is the weighted sum over positions, both span scorers return the uniform
  log-distribution over the document positions, the character layer gives every unique word
  the encoding \<open>(7, 7, ...)\<close>, and a dropout mask keeps the entries whose index sum plus the
  counter is even. Gradients are enabled and the character layer has trainable parameters.
\<close>

definition keep_even :: "nat \<Rightarrow> nat \<Rightarrow> nat \<Rightarrow> nat \<Rightarrow> bool" where
  "keep_even r i j k = even (r + i + j + k)"

definition linear0 :: "linear \<Rightarrow> real ten3 \<Rightarrow> error + real ten3" where
  "linear0 l x =
     (if int (dim2 x) = in_features l
      then Inr \<lparr>dim0 = dim0 x, dim1 = dim1 x, dim2 = nat (out_features l),
                at3 = (\<lambda>i j k. at3 x i j k - 1)\<rparr>
      else Inl RuntimeError)"

definition uniform_scores :: "real ten3 \<Rightarrow> real ten2" where
  "uniform_scores x = \<lparr>rows2 = dim0 x, cols2 = dim1 x, at2 = (\<lambda>b i. ln (1 / real (dim1 x)))\<rparr>"

definition L0 :: "nat layers" where
  "L0 = \<lparr>layers_dropout = (\<lambda>x p axes train r.
            if train \<and> 0 < p
            then Inr (x\<lparr>at3 := (\<lambda>i j k. if keep_even r i j k then at3 x i j k / (1 - p) else 0)\<rparr>,
                      Suc r)
            else Inr (x, r)),
          char_layer_call = (\<lambda>cl train ce cm r.
            Inr (\<lparr>rows2 = rows2 ce, cols2 = nat (cl_hidden_size cl), at2 = (\<lambda>i j. 7)\<rparr>, r)),
          qemb_match_call = (\<lambda>d train x y mask r. Inr (x, r)),
          doc_linear_call = linear0,
          q_linear_call = linear0,
          doc_rnn_call = (\<lambda>d train x mask r. Inr (x, r)),
          question_rnn_call = (\<lambda>d train x mask r. Inr (x, r)),
          doc_self_attn_call = (\<lambda>d train x y mask r. Inr (x, r)),
          uniform_weights = (\<lambda>x mask.
            Inr \<lparr>rows2 = dim0 x, cols2 = dim1 x, at2 = (\<lambda>b i. 1 / real (dim1 x))\<rparr>),
          self_attn_call = (\<lambda>d train x mask r.
            Inr (\<lparr>rows2 = dim0 x, cols2 = dim1 x, at2 = (\<lambda>b i. 1 / real (dim1 x))\<rparr>, r)),
          weighted_avg = (\<lambda>x w.
            Inr \<lparr>rows2 = dim0 x, cols2 = dim2 x,
                 at2 = (\<lambda>b k. \<Sum>i<dim1 x. at2 w b i * at3 x b i k)\<rparr>),
          start_attn_call = (\<lambda>d train x y mask r. Inr (uniform_scores x, r)),
          end_attn_call = (\<lambda>d train x y mask r. Inr (uniform_scores x, r)),
          bernoulli = (\<lambda>q shape r. (keep_even r, Suc r)),
          grad_enabled = True,
          char_layer_requires_grad = (\<lambda>cl. True)\<rparr>"

text \<open>
  A batch of two examples with two question tokens and two document tokens each, nothing
  masked, the second chunk target invalid, and no optional key.
\<close>

definition ex0 :: example where
  "ex0 = \<lparr>xq = of_rows 2 [[1, 2], [2, 0]],
          xq_mask = of_rows 2 [[False, False], [False, False]],
          xd = of_rows 2 [[2, 1], [0, 1]],
          xd_f = None,
          xd_mask = of_rows 2 [[False, False], [False, False]],
          targets = of_rows 2 [[0, 1], [1, 1]],
          chunk_targets = \<lparr>len1 = 2, at1 = (\<lambda>i. [0, - 1] ! i)\<rparr>,
          c_emb = None, c_emb_mask = None, c_layer_lookup = None, xqc = None, xdc = None\<rparr>"

text \<open>The model that the constructor builds from a configuration and \<open>emb0\<close>, if it does.\<close>

definition model_of :: "config \<Rightarrow> model" where
  "model_of cfg = projr (snd (DrQA_init cfg emb0 None))"

text \<open>forward on \<open>ex0\<close> with the stand-in layers, the generator at 0.\<close>

definition run0 :: "config \<Rightarrow> bool \<Rightarrow> error + ((forward_output \<times> example) \<times> nat)" where
  "run0 cfg train = forward L0 ((model_of cfg)\<lparr>training := train\<rparr>) ex0 0"

text \<open>
  The same batch with character embedding of width 1: two unique words, a lookup table of
  three rows that starts as zeros and does not require a gradient.
\<close>

definition lookup0 :: embedding where
  "lookup0 = \<lparr>obj_id = 3, weight = of_rows 1 [[0], [0], [0]], requires_grad = False,
               is_leaf = True\<rparr>"

definition ex_char :: example where
  "ex_char = ex0\<lparr>c_emb := Some (of_rows 1 [[1], [2]]),
                 c_emb_mask := Some (of_rows 1 [[False], [False]]),
                 c_layer_lookup := Some lookup0,
                 xqc := Some (of_rows 2 [[1, 2], [2, 0]]),
                 xdc := Some (of_rows 2 [[2, 1], [0, 1]])\<rparr>"

definition run_char :: "error + ((forward_output \<times> example) \<times> nat)" where
  "run_char = forward L0 ((model_of (cfg0\<lparr>char_embed := 1\<rparr>))\<lparr>training := False\<rparr>) ex_char 0"


definition add_one :: "real ten2 \<Rightarrow> real ten2" where
  "add_one t = t\<lparr>at2 := (\<lambda>i j. at2 t i j + 1)\<rparr>"

text \<open>
  A configuration with the input projection and \<open>dropout_ff = 0.3\<close>, and one token of
  width 2 to project.
\<close>

definition cfg_proj :: config where
  "cfg_proj = cfg0\<lparr>resize_rnn_input := True, dropout_ff := 3 / 10\<rparr>"

definition tokens0 :: "real ten3" where
  "tokens0 = \<lparr>dim0 = 1, dim1 = 1, dim2 = 2, at3 = (\<lambda>i j k. 4)\<rparr>"

definition run_proj :: "error + ((real ten3 \<times> real ten3) \<times> nat)" where
  "run_proj = project_inputs L0 (model_of cfg_proj) tokens0 tokens0 0"

subsection \<open>Kinds of constructed sub-modules\<close>

fun module_kind :: "module \<Rightarrow> string" where
  "module_kind (CharEmbeddingLayer _) = ''CharEmbeddingLayer''"
| "module_kind (SeqAttnMatch _) = ''SeqAttnMatch''"
| "module_kind (Linear _) = ''Linear''"
| "module_kind (StackedBRNN _) = ''StackedBRNN''"
| "module_kind (LinearSeqAttn _) = ''LinearSeqAttn''"
| "module_kind (BilinearSeqAttn _) = ''BilinearSeqAttn''"

fun is_scorer :: "module \<Rightarrow> bool" where
  "is_scorer (LinearSeqAttn _) = True"
| "is_scorer (BilinearSeqAttn _) = True"
| "is_scorer _ = False"

section \<open>Properties of the constructor\<close>

lemma opt_list_simps: "opt_list None f = []" "opt_list (Some v) f = [f v]"
  by (simp_all add: opt_list_def)

lemma filter_opt_list:
  "filter P (opt_list x f) = (case x of None \<Rightarrow> [] | Some v \<Rightarrow> if P (f v) then [f v] else [])"
  by (simp add: opt_list_def split: option.splits)

lemma list_all_opt_list:
  "list_all P (opt_list x f) = (case x of None \<Rightarrow> True | Some v \<Rightarrow> P (f v))"
  by (simp add: opt_list_def split: option.splits)

lemma RNN_TYPES_lstm: "RNN_TYPES ''lstm'' = Some LSTM"
  by (simp add: RNN_TYPES_def)

lemma embedding_dim_emb0: "embedding_dim emb0 = 2"
  by (simp add: embedding_dim_def emb0_def of_rows_def)

lemma emb0_simps: "is_leaf emb0" "requires_grad emb0" "obj_id emb0 = 1"
  by (simp_all add: emb0_def)

lemma map_kind_opt_list:
  "map module_kind (opt_list x f) = (case x of None \<Rightarrow> [] | Some v \<Rightarrow> [module_kind (f v)])"
  by (simp add: opt_list_def split: option.splits)

lemma DrQA_init_RuntimeError:
  assumes "fix_embeddings cfg" and "\<not> is_leaf w"
  shows "snd (DrQA_init cfg w c) = Inl RuntimeError"
    and "constructed (fst (DrQA_init cfg w c)) = []"
  using assms by (simp_all add: DrQA_init_def)

lemma DrQA_init_KeyError:
  assumes "(fix_embeddings cfg \<and> \<not> is_leaf w) = False"
    and "RNN_TYPES (rnn_type cfg) = None"
  shows "snd (DrQA_init cfg w c) = Inl (KeyError (rnn_type cfg))"
    and "list_all (\<lambda>x. \<not> is_scorer x) (constructed (fst (DrQA_init cfg w c)))"
  using assms by (simp_all add: DrQA_init_def Let_def list_all_opt_list)

lemma DrQA_init_NotImplemented:
  assumes "(fix_embeddings cfg \<and> \<not> is_leaf w) = False"
    and "RNN_TYPES (rnn_type cfg) = Some cls"
    and "question_merge cfg \<noteq> ''avg''" and "question_merge cfg \<noteq> ''self_attn''"
  shows "snd (DrQA_init cfg w c)
           = Inl (NotImplementedError (''question_merge = '' @ question_merge cfg))"
    and "list_all (\<lambda>x. \<not> is_scorer x) (constructed (fst (DrQA_init cfg w c)))"
    and "map module_kind (constructed (fst (DrQA_init cfg w c)))
           = (if char_embed cfg \<noteq> 0 then [''CharEmbeddingLayer''] else [])
             @ (if use_qemb cfg then [''SeqAttnMatch''] else [])
             @ (if resize_rnn_input cfg then [''Linear'', ''Linear''] else [])
             @ [''StackedBRNN'', ''StackedBRNN'']
             @ (if doc_self_attn cfg then [''SeqAttnMatch''] else [])"
  using assms
  by (simp_all add: DrQA_init_def Let_def list_all_opt_list map_kind_opt_list)

text \<open>
  C1, as stated: an unsupported \<open>question_merge\<close> makes the constructor raise before any
  weight is allocated. The check sits at line 89, after the encoders have been built: with
  \<open>question_merge = "bogus"\<close> and everything else as in \<open>cfg0\<close>, the two recurrent encoders
  are constructed and then \<open>NotImplementedError\<close> is raised.
\<close>

theorem init_bogus_merge_allocates_first:
  "constructed (fst (DrQA_init (cfg0\<lparr>question_merge := ''bogus''\<rparr>) emb0 None))
     = [StackedBRNN (new_stacked_brnn (cfg0\<lparr>question_merge := ''bogus''\<rparr>) 2 LSTM),
        StackedBRNN (new_stacked_brnn (cfg0\<lparr>question_merge := ''bogus''\<rparr>) 2 LSTM)]
   \<and> snd (DrQA_init (cfg0\<lparr>question_merge := ''bogus''\<rparr>) emb0 None)
     = Inl (NotImplementedError ''question_merge = bogus'')"
  by (simp add: DrQA_init_def cfg0_def embedding_dim_emb0 opt_list_simps RNN_TYPES_lstm Let_def)

text \<open>
  C1, amended: with a \<open>question_merge\<close> other than \<open>avg\<close> and \<open>self_attn\<close> the constructor
  always raises, so no model is returned, and it raises before the question self-attention
  scorer and the two span scorers are constructed. When the word-embedding weight can be
  frozen (\<open>fix_embeddings\<close> is off, or the weight is a leaf) and \<open>rnn_type\<close> is one of the
  three supported kinds, the error is \<open>NotImplementedError\<close> naming the value, and the
  sub-modules constructed by then are, in this order: the character layer if \<open>char_embed\<close>
  is not 0, the question matcher under \<open>use_qemb\<close>, the two input projections under
  \<open>resize_rnn_input\<close>, the two recurrent encoders, and the document self-attention under
  \<open>doc_self_attn\<close>.
\<close>

theorem init_unsupported_merge_fails:
  assumes "question_merge cfg \<noteq> ''avg''" and "question_merge cfg \<noteq> ''self_attn''"
  shows "(\<exists>e. snd (DrQA_init cfg w c) = Inl e)
    \<and> list_all (\<lambda>x. \<not> is_scorer x) (constructed (fst (DrQA_init cfg w c)))
    \<and> ((fix_embeddings cfg \<longrightarrow> is_leaf w) \<and> rnn_type cfg \<in> dom RNN_TYPES \<longrightarrow>
         snd (DrQA_init cfg w c)
           = Inl (NotImplementedError (''question_merge = '' @ question_merge cfg))
         \<and> map module_kind (constructed (fst (DrQA_init cfg w c)))
           = (if char_embed cfg \<noteq> 0 then [''CharEmbeddingLayer''] else [])
             @ (if use_qemb cfg then [''SeqAttnMatch''] else [])
             @ (if resize_rnn_input cfg then [''Linear'', ''Linear''] else [])
             @ [''StackedBRNN'', ''StackedBRNN'']
             @ (if doc_self_attn cfg then [''SeqAttnMatch''] else []))"
proof (cases "fix_embeddings cfg \<and> \<not> is_leaf w")
  case True
  then show ?thesis
    using DrQA_init_RuntimeError [of cfg w c] by auto
next
  case False
  then have ok: "(fix_embeddings cfg \<and> \<not> is_leaf w) = False" by simp
  show ?thesis
  proof (cases "RNN_TYPES (rnn_type cfg)")
    case None
    then show ?thesis
      using DrQA_init_KeyError [OF ok None, of c] by (simp add: domIff)
  next
    case (Some cls)
    then show ?thesis
      using DrQA_init_NotImplemented [OF ok Some assms, of c] by simp
  qed
qed

theorem init_unsupported_merge_fails_witness:
  "question_merge (cfg1\<lparr>resize_rnn_input := True, question_merge := ''none''\<rparr>) \<noteq> ''avg''
   \<and> question_merge (cfg1\<lparr>resize_rnn_input := True, question_merge := ''none''\<rparr>) \<noteq> ''self_attn''
   \<and> is_leaf emb0
   \<and> rnn_type (cfg1\<lparr>resize_rnn_input := True, question_merge := ''none''\<rparr>) \<in> dom RNN_TYPES
   \<and> snd (DrQA_init (cfg1\<lparr>resize_rnn_input := True, question_merge := ''none''\<rparr>) emb0 None)
       = Inl (NotImplementedError ''question_merge = none'')
   \<and> map module_kind (constructed (fst
         (DrQA_init (cfg1\<lparr>resize_rnn_input := True, question_merge := ''none''\<rparr>) emb0 None)))
       = [''CharEmbeddingLayer'', ''SeqAttnMatch'', ''Linear'', ''Linear'',
          ''StackedBRNN'', ''StackedBRNN'', ''SeqAttnMatch'']"
  using init_unsupported_merge_fails
    [of "cfg1\<lparr>resize_rnn_input := True, question_merge := ''none''\<rparr>" emb0 None]
  by (simp add: cfg1_def cfg0_def domIff RNN_TYPES_lstm emb0_simps)

lemma DrQA_init_Inr:
  assumes "snd (DrQA_init cfg w c) = Inr m"
  shows "\<exists>cls. RNN_TYPES (rnn_type cfg) = Some cls"
    and "(question_merge cfg \<noteq> ''avg'' \<and> question_merge cfg \<noteq> ''self_attn'') = False"
    and "(fix_embeddings cfg \<and> \<not> is_leaf w) = False"
  using assms by (auto simp: DrQA_init_def Let_def split: option.splits if_splits)

lemma embedding_dim_requires_grad [simp]:
  "embedding_dim (if b then w\<lparr>requires_grad := False\<rparr> else w) = embedding_dim w"
  by (simp add: embedding_dim_def)

lemma DrQA_init_fields:
  assumes "snd (DrQA_init cfg w c) = Inr m"
  shows "config m = cfg"
    and "w_embedding m = (if fix_embeddings cfg then w\<lparr>requires_grad := False\<rparr> else w)"
    and "char_layer_mod m =
          (if char_embed cfg \<noteq> 0
           then Some \<lparr>cl_char_embedding =
                         map_option (\<lambda>e. if obj_id e = obj_id w
                                          then (if fix_embeddings cfg
                                                then w\<lparr>requires_grad := False\<rparr> else w)
                                          else e) c,
                       cl_input_size = char_embed cfg,
                       cl_hidden_size = char_embed cfg, cl_layer_type = char_layer cfg,
                       cl_dropout = dropout_char cfg,
                       cl_variational_dropout = variational_dropout cfg,
                       cl_filter_height = filter_height cfg\<rparr>
           else None)"
    and "qemb_match m =
          (if use_qemb cfg then Some \<lparr>sam_input_size = embedding_dim w + char_embed cfg\<rparr>
           else None)"
    and "doc_linear m =
          (if resize_rnn_input cfg
           then Some \<lparr>in_features = embedding_dim w + char_embed cfg + num_features cfg
                         + (if use_qemb cfg then embedding_dim w + char_embed cfg else 0),
                       out_features = hidden_size cfg, bias = True\<rparr>
           else None)"
    and "q_linear m =
          (if resize_rnn_input cfg
           then Some \<lparr>in_features = embedding_dim w + char_embed cfg,
                       out_features = hidden_size cfg, bias = True\<rparr>
           else None)"
    and "rnn_input_size (doc_rnn m) =
          (if resize_rnn_input cfg then hidden_size cfg
           else embedding_dim w + char_embed cfg + num_features cfg
                + (if use_qemb cfg then embedding_dim w + char_embed cfg else 0))"
    and "rnn_input_size (question_rnn m) =
          (if resize_rnn_input cfg then hidden_size cfg
           else embedding_dim w + char_embed cfg)"
    and "doc_self_attn_mod m =
          (if doc_self_attn cfg
           then Some \<lparr>sam_input_size =
                  2 * hidden_size cfg * (if concat_rnn_layers cfg then num_layers cfg else 1)\<rparr>
           else None)"
    and "self_attn m =
          (if question_merge cfg = ''self_attn''
           then Some \<lparr>lsa_input_size =
                  2 * hidden_size cfg * (if concat_rnn_layers cfg then num_layers cfg else 1)\<rparr>
           else None)"
    and "y_size (start_attn m) =
           2 * hidden_size cfg * (if concat_rnn_layers cfg then num_layers cfg else 1)"
    and "x_size (start_attn m) =
           2 * hidden_size cfg * (if concat_rnn_layers cfg then num_layers cfg else 1)
           + (if doc_self_attn cfg
              then 2 * hidden_size cfg * (if concat_rnn_layers cfg then num_layers cfg else 1)
              else 0)"
    and "x_size (end_attn m) = x_size (start_attn m)"
    and "y_size (end_attn m) =
           (if span_dependency cfg then y_size (start_attn m) + x_size (start_attn m)
            else y_size (start_attn m))"
    and "training m = True"
proof -
  obtain cls where cls: "RNN_TYPES (rnn_type cfg) = Some cls"
    using DrQA_init_Inr(1) [OF assms] by blast
  note qm = DrQA_init_Inr(2) [OF assms]
  note lf = DrQA_init_Inr(3) [OF assms]
  have m: "m = projr (snd (DrQA_init cfg w c))"
    using assms by simp
  note defs = m DrQA_init_def Let_def cls qm lf new_stacked_brnn_def
  show "config m = cfg" by (simp add: defs)
  show "w_embedding m = (if fix_embeddings cfg then w\<lparr>requires_grad := False\<rparr> else w)"
    by (simp add: defs)
  show "char_layer_mod m =
          (if char_embed cfg \<noteq> 0
           then Some \<lparr>cl_char_embedding =
                         map_option (\<lambda>e. if obj_id e = obj_id w
                                          then (if fix_embeddings cfg
                                                then w\<lparr>requires_grad := False\<rparr> else w)
                                          else e) c,
                       cl_input_size = char_embed cfg,
                       cl_hidden_size = char_embed cfg, cl_layer_type = char_layer cfg,
                       cl_dropout = dropout_char cfg,
                       cl_variational_dropout = variational_dropout cfg,
                       cl_filter_height = filter_height cfg\<rparr>
           else None)"
    by (simp add: defs)
  show "qemb_match m =
          (if use_qemb cfg then Some \<lparr>sam_input_size = embedding_dim w + char_embed cfg\<rparr>
           else None)"
    by (simp add: defs)
  show "doc_linear m =
          (if resize_rnn_input cfg
           then Some \<lparr>in_features = embedding_dim w + char_embed cfg + num_features cfg
                         + (if use_qemb cfg then embedding_dim w + char_embed cfg else 0),
                       out_features = hidden_size cfg, bias = True\<rparr>
           else None)"
    by (simp add: defs)
  show "q_linear m =
          (if resize_rnn_input cfg
           then Some \<lparr>in_features = embedding_dim w + char_embed cfg,
                       out_features = hidden_size cfg, bias = True\<rparr>
           else None)"
    by (simp add: defs)
  show "rnn_input_size (doc_rnn m) =
          (if resize_rnn_input cfg then hidden_size cfg
           else embedding_dim w + char_embed cfg + num_features cfg
                + (if use_qemb cfg then embedding_dim w + char_embed cfg else 0))"
    by (simp add: defs)
  show "rnn_input_size (question_rnn m) =
          (if resize_rnn_input cfg then hidden_size cfg
           else embedding_dim w + char_embed cfg)"
    by (simp add: defs)
  show "doc_self_attn_mod m =
          (if doc_self_attn cfg
           then Some \<lparr>sam_input_size =
                  2 * hidden_size cfg * (if concat_rnn_layers cfg then num_layers cfg else 1)\<rparr>
           else None)"
    by (simp add: defs)
  show "self_attn m =
          (if question_merge cfg = ''self_attn''
           then Some \<lparr>lsa_input_size =
                  2 * hidden_size cfg * (if concat_rnn_layers cfg then num_layers cfg else 1)\<rparr>
           else None)"
    by (simp add: defs)
  show "y_size (start_attn m) =
           2 * hidden_size cfg * (if concat_rnn_layers cfg then num_layers cfg else 1)"
    by (simp add: defs)
  show "x_size (start_attn m) =
           2 * hidden_size cfg * (if concat_rnn_layers cfg then num_layers cfg else 1)
           + (if doc_self_attn cfg
              then 2 * hidden_size cfg * (if concat_rnn_layers cfg then num_layers cfg else 1)
              else 0)"
    by (simp add: defs)
  show "x_size (end_attn m) = x_size (start_attn m)"
    by (simp add: defs)
  show "y_size (end_attn m) =
           (if span_dependency cfg then y_size (start_attn m) + x_size (start_attn m)
            else y_size (start_attn m))"
    by (simp add: defs)
  show "training m = True" by (simp add: defs)
qed

text \<open>
  C2: the widths the constructor derives. The per-token embedding width is the width of the
  word-embedding table plus \<open>char_embed\<close> (which is 0 when character embedding is off). The
  document encoder reads that width, plus it again under \<open>use_qemb\<close>, plus \<open>num_features\<close>;
  the question encoder reads the embedding width; both read \<open>hidden_size\<close> under
  \<open>resize_rnn_input\<close>. An encoder gives \<open>2 * hidden_size\<close>, times \<open>num_layers\<close> when layers
  are concatenated; the document side adds the question width under \<open>doc_self_attn\<close>. The end
  scorer's question width is the question width, plus the document width under
  \<open>span_dependency\<close>.
\<close>

theorem init_widths:
  assumes "snd (DrQA_init cfg w c) = Inr m"
  shows "let emb_width = embedding_dim w + char_embed cfg;
             doc_in = emb_width + (if use_qemb cfg then emb_width else 0) + num_features cfg;
             enc = 2 * hidden_size cfg * (if concat_rnn_layers cfg then num_layers cfg else 1);
             q_width = enc;
             doc_width = (if doc_self_attn cfg then enc + q_width else enc)
         in rnn_input_size (doc_rnn m) = (if resize_rnn_input cfg then hidden_size cfg else doc_in)
          \<and> rnn_input_size (question_rnn m)
              = (if resize_rnn_input cfg then hidden_size cfg else emb_width)
          \<and> x_size (start_attn m) = doc_width \<and> y_size (start_attn m) = q_width
          \<and> x_size (end_attn m) = doc_width
          \<and> y_size (end_attn m) = (if span_dependency cfg then q_width + doc_width else q_width)
          \<and> (use_qemb cfg \<longrightarrow> qemb_match m = Some \<lparr>sam_input_size = emb_width\<rparr>)
          \<and> (resize_rnn_input cfg \<longrightarrow>
                doc_linear m = Some \<lparr>in_features = doc_in, out_features = hidden_size cfg,
                                      bias = True\<rparr>
              \<and> q_linear m = Some \<lparr>in_features = emb_width, out_features = hidden_size cfg,
                                    bias = True\<rparr>)
          \<and> (doc_self_attn cfg \<longrightarrow> doc_self_attn_mod m = Some \<lparr>sam_input_size = enc\<rparr>)
          \<and> (question_merge cfg = ''self_attn'' \<longrightarrow>
                self_attn m = Some \<lparr>lsa_input_size = q_width\<rparr>)"
  unfolding Let_def
  by (simp add: DrQA_init_fields [OF assms])


theorem init_widths_witness:
  "snd (DrQA_init cfg1 emb0 None) = Inr (projr (snd (DrQA_init cfg1 emb0 None)))
   \<and> rnn_input_size (doc_rnn (projr (snd (DrQA_init cfg1 emb0 None)))) = 15
   \<and> rnn_input_size (question_rnn (projr (snd (DrQA_init cfg1 emb0 None)))) = 6
   \<and> x_size (start_attn (projr (snd (DrQA_init cfg1 emb0 None)))) = 24
   \<and> y_size (start_attn (projr (snd (DrQA_init cfg1 emb0 None)))) = 12
   \<and> x_size (end_attn (projr (snd (DrQA_init cfg1 emb0 None)))) = 24
   \<and> y_size (end_attn (projr (snd (DrQA_init cfg1 emb0 None)))) = 36"
proof -
  have ok: "snd (DrQA_init cfg1 emb0 None) = Inr (projr (snd (DrQA_init cfg1 emb0 None)))"
    by (simp add: DrQA_init_def Let_def cfg1_def cfg0_def RNN_TYPES_lstm)
  show ?thesis
    using ok init_widths [OF ok]
    by (simp add: Let_def cfg1_def cfg0_def embedding_dim_emb0)
qed

section \<open>Properties of forward\<close>

subsection \<open>What a call that returns has computed\<close>

lemma bindE_Inr_iff:
  "bindE f g r = Inr v \<longleftrightarrow> (\<exists>x r1. f r = Inr (x, r1) \<and> g x r1 = Inr v)"
  by (auto simp: bindE_def split: sum.splits)

lemma lift_Inr_iff: "lift v r = Inr (x, r') \<longleftrightarrow> v = Inr x \<and> r' = r"
  by (auto simp: lift_def split: sum.splits)

lemma ret_Inr_iff: "ret x r = Inr (y, r') \<longleftrightarrow> y = x \<and> r' = r"
  by (auto simp: ret_def)

lemma bindS_Inr_iff: "bindS v g = Inr y \<longleftrightarrow> (\<exists>x. v = Inr x \<and> g x = Inr y)"
  by (auto simp: bindS_def split: sum.splits)

lemma attr_Inr_iff: "attr n v = Inr x \<longleftrightarrow> v = Some x"
  by (auto simp: attr_def split: option.splits)

lemma key_Inr_iff: "key n v = Inr x \<longleftrightarrow> v = Some x"
  by (auto simp: key_def split: option.splits)

lemmas eff_iffs = bindE_Inr_iff lift_Inr_iff ret_Inr_iff bindS_Inr_iff attr_Inr_iff key_Inr_iff

lemma char_embeddings_InrD:
  assumes "char_embeddings L m ex xq_emb xd_emb r = Inr ((q', d', ex'), r')"
  shows "if char_embed (config m) > 0
         then \<exists>cl ce cm xc_rep lookup lookup' qc xqc_emb dc xdc_emb.
                char_layer_mod m = Some cl \<and> c_emb ex = Some ce \<and> c_emb_mask ex = Some cm
              \<and> char_layer_call L cl (training m) ce cm r = Inr (xc_rep, r')
              \<and> c_layer_lookup ex = Some lookup
              \<and> set_rows_from_1 (grad_enabled L) lookup xc_rep
                    (grad_enabled L \<and> char_layer_requires_grad L cl) = Inr lookup'
              \<and> ex' = ex\<lparr>c_layer_lookup := Some lookup'\<rparr>
              \<and> xqc ex = Some qc \<and> Embedding_call lookup' qc = Inr xqc_emb
              \<and> xdc ex = Some dc \<and> Embedding_call lookup' dc = Inr xdc_emb
              \<and> cat_dim2 xq_emb xqc_emb = Inr q' \<and> cat_dim2 xd_emb xdc_emb = Inr d'
         else ex' = ex \<and> r' = r \<and> q' = xq_emb \<and> d' = xd_emb"
  using assms unfolding char_embeddings_def
  by (auto simp: eff_iffs Let_def split: if_splits)

lemma char_embeddings_frame:
  assumes "char_embeddings L m ex xq_emb xd_emb r = Inr ((q', d', ex'), r')"
  shows "ex' = ex\<lparr>c_layer_lookup := c_layer_lookup ex'\<rparr>"
  using char_embeddings_InrD [OF assms] by (auto split: if_splits)

lemma embed_words_InrD:
  assumes "embed_words L m ex r = Inr ((q, d), r')"
  shows "\<exists>q0 d0 ra.
           Embedding_call (w_embedding m) (xq ex) = Inr q0
         \<and> Embedding_call (w_embedding m) (xd ex) = Inr d0
         \<and> layers_dropout L q0 (dropout_emb (config m))
              (if word_dropout (config m) then [2] else []) (training m) r = Inr (q, ra)
         \<and> layers_dropout L d0 (dropout_emb (config m))
              (if word_dropout (config m) then [2] else []) (training m) ra = Inr (d, r')"
  using assms unfolding embed_words_def
  by (auto simp: eff_iffs Let_def)

lemma forward_InrD:
  assumes "forward L m ex r = Inr ((out, ex'), r')"
  shows "\<exists>xq_emb xd_emb r1 xq1 xd1 r2 drnn r3 drnn' xq2 r4 dh r5 qh r6 ss r7 qv es.
           embed_words L m ex r = Inr ((xq_emb, xd_emb), r1)
         \<and> char_embeddings L m ex xq_emb xd_emb r1 = Inr ((xq1, xd1, ex'), r2)
         \<and> doc_rnn_input L m ex' xd1 xq1 r2 = Inr (drnn, r3)
         \<and> project_inputs L m drnn xq1 r3 = Inr ((drnn', xq2), r4)
         \<and> encode_doc L m ex' drnn' r4 = Inr (dh, r5)
         \<and> merge_question L m ex' xq2 r5 = Inr (qh, r6)
         \<and> start_attn_call L (start_attn m) (training m) dh qh (xd_mask ex') r6 = Inr (ss, r7)
         \<and> span_question (config m) qh dh ss = Inr qv
         \<and> end_attn_call L (end_attn m) (training m) dh qv (xd_mask ex') r7 = Inr (es, r')
         \<and> out = \<lparr>score_s = ss, score_e = es, targets_out = targets ex',
                   chunk_target_acc = chunk_acc_of (chunk_targets ex'),
                   chunk_any_acc = chunk_acc_of (chunk_targets ex')\<rparr>"
  using assms unfolding forward_def
  by (simp add: eff_iffs Let_def split_paired_all split: prod.splits) blast

lemma bidx_less: "i < d \<Longrightarrow> bidx d i = i"
  by (auto simp: bidx_def)

lemma bdim_same: "bdim a a = Some a"
  by (simp add: bdim_def)

lemma bdim_1: "bdim a (Suc 0) = Some a"
  by (simp add: bdim_def)

lemma span_question_enabled:
  assumes sd: "span_dependency cfg"
    and ok: "span_question cfg qh dh ss = Inr qv"
    and shape: "rows2 ss = dim0 dh" "cols2 ss = dim1 dh"
  shows "rows2 qv = rows2 qh" and "cols2 qv = cols2 qh + dim2 dh"
    and "\<forall>b<rows2 qv. \<forall>k<cols2 qv.
           at2 qv b k = (if k < cols2 qh then at2 qh b k
                         else \<Sum>i<dim1 dh. exp (at2 ss b i) * at3 dh b i (k - cols2 qh))"
proof -
  let ?p = "\<lparr>dim0 = dim0 dh, dim1 = dim1 dh, dim2 = dim2 dh,
             at3 = (\<lambda>i j k. at3 dh (bidx (dim0 dh) i) (bidx (dim1 dh) j) (bidx (dim2 dh) k)
                            * exp (at2 ss (bidx (dim0 dh) i) (bidx (dim1 dh) j)))\<rparr>"
  have mul: "mul_ten dh (unsqueeze2 (exp_ten ss)) = Inr ?p"
    using shape by (simp add: mul_ten_def unsqueeze2_def exp_ten_def bdim_same bdim_1)
  have cat: "cat_dim1 qh (sum_dim1 ?p) = Inr qv"
    using ok sd by (simp add: span_question_def bindS_def mul)
  have S: "rows2 (sum_dim1 ?p) = dim0 dh" "cols2 (sum_dim1 ?p) = dim2 dh"
    by (simp_all add: sum_dim1_def)
  from cat have rows: "rows2 qh = dim0 dh"
    and qv: "qv = \<lparr>rows2 = rows2 qh, cols2 = cols2 qh + dim2 dh,
                    at2 = (\<lambda>i k. if k < cols2 qh then at2 qh i k
                                  else at2 (sum_dim1 ?p) i (k - cols2 qh))\<rparr>"
    by (auto simp: cat_dim1_def S split: if_splits)
  show "rows2 qv = rows2 qh" and "cols2 qv = cols2 qh + dim2 dh"
    by (simp_all add: qv)
  show "\<forall>b<rows2 qv. \<forall>k<cols2 qv.
           at2 qv b k = (if k < cols2 qh then at2 qh b k
                         else \<Sum>i<dim1 dh. exp (at2 ss b i) * at3 dh b i (k - cols2 qh))"
  proof (intro allI impI)
    fix b k assume b: "b < rows2 qv" and k: "k < cols2 qv"
    have b': "b < dim0 dh" using b rows by (simp add: qv)
    show "at2 qv b k = (if k < cols2 qh then at2 qh b k
                         else \<Sum>i<dim1 dh. exp (at2 ss b i) * at3 dh b i (k - cols2 qh))"
    proof (cases "k < cols2 qh")
      case True
      then show ?thesis by (simp add: qv)
    next
      case False
      then have k': "k - cols2 qh < dim2 dh" using k by (simp add: qv)
      have "at2 qv b k = (\<Sum>i<dim1 dh. at3 ?p b i (k - cols2 qh))"
        using False by (simp add: qv sum_dim1_def)
      also have "\<dots> = (\<Sum>i<dim1 dh. exp (at2 ss b i) * at3 dh b i (k - cols2 qh))"
        by (rule sum.cong) (simp_all add: bidx_less b' k' mult.commute)
      finally show ?thesis using False by simp
    qed
  qed
qed

lemma span_question_disabled:
  "\<not> span_dependency cfg \<Longrightarrow> span_question cfg qh dh ss = Inr qv \<Longrightarrow> qv = qh"
  by (simp add: span_question_def)

lemma upt_0_2: "[0..<2] = [0, 1]"
  by (simp add: numeral_2_eq_2)

lemma sum_lessThan_2: "(\<Sum>i<(2::nat). f i) = f 0 + (f 1 :: real)"
  by (simp add: numeral_2_eq_2)

lemma count_nonneg_card:
  "count_nonneg t = real (card {i. i < len1 t \<and> 0 \<le> at1 t i})"
proof -
  have "{i. i < length [0..<len1 t] \<and> 0 \<le> at1 t ([0..<len1 t] ! i)}
        = {i. i < len1 t \<and> 0 \<le> at1 t i}"
    by auto
  then show ?thesis
    by (simp add: count_nonneg_def length_filter_conv_card)
qed

subsection \<open>Evaluating the example\<close>

lemma model_of_cfg0:
  "model_of cfg0 =
     \<lparr>config = cfg0, w_embedding = emb0, char_layer_mod = None,
      qemb_match = None, doc_linear = None, q_linear = None,
      doc_rnn = new_stacked_brnn cfg0 2 LSTM,
      question_rnn = new_stacked_brnn cfg0 2 LSTM,
      doc_self_attn_mod = None, self_attn = None,
      start_attn = \<lparr>x_size = 6, y_size = 6\<rparr>, end_attn = \<lparr>x_size = 6, y_size = 6\<rparr>,
      training = True\<rparr>"
  by (simp add: model_of_def DrQA_init_def Let_def cfg0_def RNN_TYPES_lstm embedding_dim_emb0
      opt_list_simps)

lemma model_of_sd:
  "model_of (cfg0\<lparr>span_dependency := True\<rparr>) =
     \<lparr>config = cfg0\<lparr>span_dependency := True\<rparr>, w_embedding = emb0, char_layer_mod = None,
      qemb_match = None, doc_linear = None, q_linear = None,
      doc_rnn = new_stacked_brnn (cfg0\<lparr>span_dependency := True\<rparr>) 2 LSTM,
      question_rnn = new_stacked_brnn (cfg0\<lparr>span_dependency := True\<rparr>) 2 LSTM,
      doc_self_attn_mod = None, self_attn = None,
      start_attn = \<lparr>x_size = 6, y_size = 6\<rparr>, end_attn = \<lparr>x_size = 6, y_size = 12\<rparr>,
      training = True\<rparr>"
  by (simp add: model_of_def DrQA_init_def Let_def cfg0_def RNN_TYPES_lstm embedding_dim_emb0)

lemmas forward_defs = forward_def embed_words_def char_embeddings_def doc_rnn_input_def
  project_inputs_def encode_doc_def merge_question_def span_question_def
  bindE_def bindS_def lift_def ret_def attr_def key_def

lemmas torch_defs = Embedding_call_def cat_dim1_def cat_dim2_def mul_ten_def bdim_def bidx_def
  unsqueeze2_def exp_ten_def sum_dim1_def relu_def F_dropout_def F_dropout_default_p_def
  set_rows_from_1_def chunk_acc_of_def count_nonneg_def

lemmas example_defs = L0_def ex0_def cfg0_def emb0_def of_rows_def uniform_scores_def
  linear0_def keep_even_def upt_0_2 sum_lessThan_2

lemma Inr_projr: "\<not> isl v \<Longrightarrow> v = Inr ((fst (fst (projr v)), snd (fst (projr v))), snd (projr v))"
  by (cases v) auto

lemma run0_cfg0:
  "\<not> isl (run0 cfg0 False)"
  "targets_out (fst (fst (projr (run0 cfg0 False)))) = targets ex0"
  "chunk_target_acc (fst (fst (projr (run0 cfg0 False)))) = Float (1 / 2)"
  "chunk_any_acc (fst (fst (projr (run0 cfg0 False)))) = Float (1 / 2)"
  unfolding run0_def model_of_cfg0
  by (simp_all add: forward_defs torch_defs example_defs Let_def)

lemma L0_start_attn_call: "start_attn_call L0 d t x y mk r = Inr (uniform_scores x, r)"
  by (simp add: L0_def)

lemma run0_sd:
  "\<not> isl (run0 (cfg0\<lparr>span_dependency := True\<rparr>) False)"
  "rows2 (score_s (fst (fst (projr (run0 (cfg0\<lparr>span_dependency := True\<rparr>) False))))) = 2"
  "cols2 (score_s (fst (fst (projr (run0 (cfg0\<lparr>span_dependency := True\<rparr>) False))))) = 2"
  unfolding run0_def model_of_sd
  by (simp_all add: forward_defs torch_defs example_defs Let_def)

subsection \<open>The question vector of the end scorer\<close>

text \<open>
  C3: in every call of forward that returns, the start scores come from the start scorer
  applied to the encoded document \<open>dh\<close> and the merged question summary \<open>qh\<close>, and the end
  scores from the end scorer applied to \<open>dh\<close> and a question vector \<open>qv\<close>. Under
  \<open>span_dependency\<close>, when the start scores have the shape (batch, document length) of
  \<open>dh\<close>, \<open>qv\<close> is \<open>qh\<close> followed by the expected document representation under the start
  distribution: entry \<open>k\<close> past the width of \<open>qh\<close> is the sum over the positions \<open>i\<close> of
  \<open>exp (start score at i)\<close> times entry \<open>k\<close> of the document at \<open>i\<close>. Without
  \<open>span_dependency\<close>, \<open>qv\<close> is \<open>qh\<close> itself.
\<close>

theorem forward_end_scorer_question:
  assumes "forward L m ex r = Inr ((out, ex'), r')"
  shows "\<exists>drnn xq_emb r4 dh r5 qh r6 r7 qv.
           encode_doc L m ex' drnn r4 = Inr (dh, r5)
         \<and> merge_question L m ex' xq_emb r5 = Inr (qh, r6)
         \<and> start_attn_call L (start_attn m) (training m) dh qh (xd_mask ex) r6
             = Inr (score_s out, r7)
         \<and> end_attn_call L (end_attn m) (training m) dh qv (xd_mask ex) r7
             = Inr (score_e out, r')
         \<and> (if span_dependency (config m)
            then rows2 (score_s out) = dim0 dh \<and> cols2 (score_s out) = dim1 dh \<longrightarrow>
                 rows2 qv = rows2 qh \<and> cols2 qv = cols2 qh + dim2 dh
               \<and> (\<forall>b<rows2 qv. \<forall>k<cols2 qv.
                    at2 qv b k =
                      (if k < cols2 qh then at2 qh b k
                       else \<Sum>i<dim1 dh. exp (at2 (score_s out) b i)
                                          * at3 dh b i (k - cols2 qh)))
            else qv = qh)"
proof -
  from forward_InrD [OF assms]
  obtain xq_emb xd_emb r1 xq1 xd1 r2 drnn r3 drnn' xq2 r4 dh r5 qh r6 ss r7 qv es where
    ch: "char_embeddings L m ex xq_emb xd_emb r1 = Inr ((xq1, xd1, ex'), r2)"
    and enc: "encode_doc L m ex' drnn' r4 = Inr (dh, r5)"
    and mq: "merge_question L m ex' xq2 r5 = Inr (qh, r6)"
    and st: "start_attn_call L (start_attn m) (training m) dh qh (xd_mask ex') r6 = Inr (ss, r7)"
    and sq: "span_question (config m) qh dh ss = Inr qv"
    and en: "end_attn_call L (end_attn m) (training m) dh qv (xd_mask ex') r7 = Inr (es, r')"
    and out: "out = \<lparr>score_s = ss, score_e = es, targets_out = targets ex',
                   chunk_target_acc = chunk_acc_of (chunk_targets ex'),
                   chunk_any_acc = chunk_acc_of (chunk_targets ex')\<rparr>"
    by blast
  have mask: "xd_mask ex' = xd_mask ex"
    by (subst char_embeddings_frame [OF ch]) simp
  have ss: "score_s out = ss" and es: "score_e out = es"
    by (simp_all add: out)
  have content: "if span_dependency (config m)
            then rows2 ss = dim0 dh \<and> cols2 ss = dim1 dh \<longrightarrow>
                 rows2 qv = rows2 qh \<and> cols2 qv = cols2 qh + dim2 dh
               \<and> (\<forall>b<rows2 qv. \<forall>k<cols2 qv.
                    at2 qv b k =
                      (if k < cols2 qh then at2 qh b k
                       else \<Sum>i<dim1 dh. exp (at2 ss b i) * at3 dh b i (k - cols2 qh)))
            else qv = qh"
  proof (cases "span_dependency (config m)")
    case True
    then show ?thesis
      using span_question_enabled [OF True sq] by simp
  next
    case False
    then show ?thesis
      using span_question_disabled [OF False sq] by simp
  qed
  show ?thesis
    using enc mq st en content unfolding mask ss es by blast
qed

theorem forward_end_scorer_question_witness:
  "span_dependency (config ((model_of (cfg0\<lparr>span_dependency := True\<rparr>))\<lparr>training := False\<rparr>))
   \<and> run0 (cfg0\<lparr>span_dependency := True\<rparr>) False
       = Inr ((fst (fst (projr (run0 (cfg0\<lparr>span_dependency := True\<rparr>) False))),
               snd (fst (projr (run0 (cfg0\<lparr>span_dependency := True\<rparr>) False)))),
              snd (projr (run0 (cfg0\<lparr>span_dependency := True\<rparr>) False)))
   \<and> (\<exists>(dh :: real ten3) (qh :: real ten2) (qv :: real ten2).
         rows2 (score_s (fst (fst (projr (run0 (cfg0\<lparr>span_dependency := True\<rparr>) False)))))
           = dim0 dh
       \<and> cols2 (score_s (fst (fst (projr (run0 (cfg0\<lparr>span_dependency := True\<rparr>) False)))))
           = dim1 dh
       \<and> cols2 qv = cols2 qh + dim2 dh
       \<and> (\<forall>b<rows2 qv. \<forall>k<cols2 qv.
             at2 qv b k =
               (if k < cols2 qh then at2 qh b k
                else \<Sum>i<dim1 dh.
                       exp (at2 (score_s (fst (fst (projr
                              (run0 (cfg0\<lparr>span_dependency := True\<rparr>) False))))) b i)
                       * at3 dh b i (k - cols2 qh))))"
proof -
  let ?m = "(model_of (cfg0\<lparr>span_dependency := True\<rparr>))\<lparr>training := False\<rparr>"
  let ?X = "forward L0 ?m ex0 0"
  note f = run0_sd [unfolded run0_def]
  have sd: "span_dependency (config ?m)"
    by (simp add: model_of_sd)
  have ok: "?X = Inr ((fst (fst (projr ?X)), snd (fst (projr ?X))), snd (projr ?X))"
    by (rule Inr_projr [OF f(1)])
  from forward_end_scorer_question [OF ok]
  obtain drnn xq_emb r4 dh r5 qh r6 r7 qv where
    enc: "encode_doc L0 ?m (snd (fst (projr ?X))) drnn r4 = Inr (dh, r5)"
    and c: "if span_dependency (config ?m)
            then rows2 (score_s (fst (fst (projr ?X)))) = dim0 dh
               \<and> cols2 (score_s (fst (fst (projr ?X)))) = dim1 dh \<longrightarrow>
                 rows2 qv = rows2 qh \<and> cols2 qv = cols2 qh + dim2 dh
               \<and> (\<forall>b<rows2 qv. \<forall>k<cols2 qv.
                    at2 qv b k =
                      (if k < cols2 qh then at2 qh b k
                       else \<Sum>i<dim1 dh. exp (at2 (score_s (fst (fst (projr ?X)))) b i)
                                          * at3 dh b i (k - cols2 qh)))
            else qv = qh"
    and st: "start_attn_call L0 (start_attn ?m) (training ?m) dh qh (xd_mask ex0) r6
             = Inr (score_s (fst (fst (projr ?X))), r7)"
    by blast
  have shape: "rows2 (score_s (fst (fst (projr ?X)))) = dim0 dh"
    "cols2 (score_s (fst (fst (projr ?X)))) = dim1 dh"
  proof -
    have "score_s (fst (fst (projr ?X))) = uniform_scores dh"
      using st by (simp add: L0_start_attn_call)
    then show "rows2 (score_s (fst (fst (projr ?X)))) = dim0 dh"
      "cols2 (score_s (fst (fst (projr ?X)))) = dim1 dh"
      by (simp_all add: uniform_scores_def)
  qed
  from c have imp: "rows2 (score_s (fst (fst (projr ?X)))) = dim0 dh
               \<and> cols2 (score_s (fst (fst (projr ?X)))) = dim1 dh \<longrightarrow>
                 rows2 qv = rows2 qh \<and> cols2 qv = cols2 qh + dim2 dh
               \<and> (\<forall>b<rows2 qv. \<forall>k<cols2 qv.
                    at2 qv b k =
                      (if k < cols2 qh then at2 qh b k
                       else \<Sum>i<dim1 dh. exp (at2 (score_s (fst (fst (projr ?X)))) b i)
                                          * at3 dh b i (k - cols2 qh)))"
    by (simp only: sd if_True)
  from imp shape have
    "cols2 qv = cols2 qh + dim2 dh
     \<and> (\<forall>b<rows2 qv. \<forall>k<cols2 qv.
          at2 qv b k =
            (if k < cols2 qh then at2 qh b k
             else \<Sum>i<dim1 dh. exp (at2 (score_s (fst (fst (projr ?X)))) b i)
                                * at3 dh b i (k - cols2 qh)))"
    by blast
  with shape have "\<exists>(dh :: real ten3) (qh :: real ten2) (qv :: real ten2).
         rows2 (score_s (fst (fst (projr ?X)))) = dim0 dh
       \<and> cols2 (score_s (fst (fst (projr ?X)))) = dim1 dh
       \<and> cols2 qv = cols2 qh + dim2 dh
       \<and> (\<forall>b<rows2 qv. \<forall>k<cols2 qv.
             at2 qv b k =
               (if k < cols2 qh then at2 qh b k
                else \<Sum>i<dim1 dh. exp (at2 (score_s (fst (fst (projr ?X)))) b i)
                       * at3 dh b i (k - cols2 qh)))"
    by blast
  then show ?thesis
    unfolding run0_def using sd ok by (intro conjI)
qed

subsection \<open>The returned dictionary\<close>

text \<open>
  C5: the dictionary that a call of forward returns holds, under \<open>score_s\<close>, what the start
  scorer returns on this call's encoded document and merged question (the word embeddings of
  the example's document and question ids, through the stages of forward, from the state of
  the random generator at the call), under \<open>score_e\<close> what the end scorer returns on the same
  document and the question vector of lines 179 and 180, the \<open>targets\<close> of the example as
  they came in, and under both \<open>chunk_target_acc\<close> and \<open>chunk_any_acc\<close> the number of chunk
  targets that are not negative divided by the number of chunk targets (not-a-number for an
  empty batch).
\<close>

theorem forward_output_packaging:
  assumes "forward L m ex r = Inr ((out, ex'), r')"
  shows "targets_out out = targets ex
       \<and> chunk_target_acc out = chunk_any_acc out
       \<and> chunk_target_acc out =
           (if len1 (chunk_targets ex) = 0 then NaN
            else Float (real (card {i. i < len1 (chunk_targets ex) \<and> 0 \<le> at1 (chunk_targets ex) i})
                        / real (len1 (chunk_targets ex))))
       \<and> (\<exists>q0 d0 ra xq_emb xd_emb r1 xq1 xd1 r2 drnn r3 drnn' xq2 r4 dh r5 qh r6 r7 qv.
             Embedding_call (w_embedding m) (xq ex) = Inr q0
           \<and> Embedding_call (w_embedding m) (xd ex) = Inr d0
           \<and> layers_dropout L q0 (dropout_emb (config m))
                (if word_dropout (config m) then [2] else []) (training m) r = Inr (xq_emb, ra)
           \<and> layers_dropout L d0 (dropout_emb (config m))
                (if word_dropout (config m) then [2] else []) (training m) ra = Inr (xd_emb, r1)
           \<and> char_embeddings L m ex xq_emb xd_emb r1 = Inr ((xq1, xd1, ex'), r2)
           \<and> doc_rnn_input L m ex' xd1 xq1 r2 = Inr (drnn, r3)
           \<and> project_inputs L m drnn xq1 r3 = Inr ((drnn', xq2), r4)
           \<and> encode_doc L m ex' drnn' r4 = Inr (dh, r5)
           \<and> merge_question L m ex' xq2 r5 = Inr (qh, r6)
           \<and> start_attn_call L (start_attn m) (training m) dh qh (xd_mask ex) r6
               = Inr (score_s out, r7)
           \<and> span_question (config m) qh dh (score_s out) = Inr qv
           \<and> end_attn_call L (end_attn m) (training m) dh qv (xd_mask ex) r7
               = Inr (score_e out, r'))"
proof -
  from forward_InrD [OF assms]
  obtain xq_emb xd_emb r1 xq1 xd1 r2 drnn r3 drnn' xq2 r4 dh r5 qh r6 ss r7 qv es where
    ew: "embed_words L m ex r = Inr ((xq_emb, xd_emb), r1)"
    and ch: "char_embeddings L m ex xq_emb xd_emb r1 = Inr ((xq1, xd1, ex'), r2)"
    and di: "doc_rnn_input L m ex' xd1 xq1 r2 = Inr (drnn, r3)"
    and pr: "project_inputs L m drnn xq1 r3 = Inr ((drnn', xq2), r4)"
    and enc: "encode_doc L m ex' drnn' r4 = Inr (dh, r5)"
    and mq: "merge_question L m ex' xq2 r5 = Inr (qh, r6)"
    and st: "start_attn_call L (start_attn m) (training m) dh qh (xd_mask ex') r6 = Inr (ss, r7)"
    and sq: "span_question (config m) qh dh ss = Inr qv"
    and en: "end_attn_call L (end_attn m) (training m) dh qv (xd_mask ex') r7 = Inr (es, r')"
    and out: "out = \<lparr>score_s = ss, score_e = es, targets_out = targets ex',
                   chunk_target_acc = chunk_acc_of (chunk_targets ex'),
                   chunk_any_acc = chunk_acc_of (chunk_targets ex')\<rparr>"
    by blast
  from embed_words_InrD [OF ew]
  obtain q0 d0 ra where
    e1: "Embedding_call (w_embedding m) (xq ex) = Inr q0"
    and e2: "Embedding_call (w_embedding m) (xd ex) = Inr d0"
    and e3: "layers_dropout L q0 (dropout_emb (config m))
                (if word_dropout (config m) then [2] else []) (training m) r = Inr (xq_emb, ra)"
    and e4: "layers_dropout L d0 (dropout_emb (config m))
                (if word_dropout (config m) then [2] else []) (training m) ra = Inr (xd_emb, r1)"
    by blast
  have same: "xd_mask ex' = xd_mask ex" "targets ex' = targets ex"
    "chunk_targets ex' = chunk_targets ex"
    by (subst char_embeddings_frame [OF ch], simp)+
  have ss: "score_s out = ss" and es: "score_e out = es"
    by (simp_all add: out)
  have "targets_out out = targets ex"
    by (simp add: out same)
  moreover have "chunk_target_acc out = chunk_any_acc out"
    by (simp add: out)
  moreover have "chunk_target_acc out =
           (if len1 (chunk_targets ex) = 0 then NaN
            else Float (real (card {i. i < len1 (chunk_targets ex) \<and> 0 \<le> at1 (chunk_targets ex) i})
                        / real (len1 (chunk_targets ex))))"
    by (simp add: out same chunk_acc_of_def count_nonneg_card)
  moreover have "\<exists>q0 d0 ra xq_emb xd_emb r1 xq1 xd1 r2 drnn r3 drnn' xq2 r4 dh r5 qh r6 r7 qv.
             Embedding_call (w_embedding m) (xq ex) = Inr q0
           \<and> Embedding_call (w_embedding m) (xd ex) = Inr d0
           \<and> layers_dropout L q0 (dropout_emb (config m))
                (if word_dropout (config m) then [2] else []) (training m) r = Inr (xq_emb, ra)
           \<and> layers_dropout L d0 (dropout_emb (config m))
                (if word_dropout (config m) then [2] else []) (training m) ra = Inr (xd_emb, r1)
           \<and> char_embeddings L m ex xq_emb xd_emb r1 = Inr ((xq1, xd1, ex'), r2)
           \<and> doc_rnn_input L m ex' xd1 xq1 r2 = Inr (drnn, r3)
           \<and> project_inputs L m drnn xq1 r3 = Inr ((drnn', xq2), r4)
           \<and> encode_doc L m ex' drnn' r4 = Inr (dh, r5)
           \<and> merge_question L m ex' xq2 r5 = Inr (qh, r6)
           \<and> start_attn_call L (start_attn m) (training m) dh qh (xd_mask ex) r6
               = Inr (score_s out, r7)
           \<and> span_question (config m) qh dh (score_s out) = Inr qv
           \<and> end_attn_call L (end_attn m) (training m) dh qv (xd_mask ex) r7
               = Inr (score_e out, r')"
    using e1 e2 e3 e4 ch di pr enc mq st sq en unfolding same ss es by blast
  ultimately show ?thesis by blast
qed

theorem forward_output_packaging_witness:
  "run0 cfg0 False = Inr ((fst (fst (projr (run0 cfg0 False))),
                            snd (fst (projr (run0 cfg0 False)))), snd (projr (run0 cfg0 False)))
   \<and> targets_out (fst (fst (projr (run0 cfg0 False)))) = targets ex0
   \<and> chunk_target_acc (fst (fst (projr (run0 cfg0 False)))) = Float (1 / 2)
   \<and> chunk_any_acc (fst (fst (projr (run0 cfg0 False)))) = Float (1 / 2)"
proof -
  note f = run0_cfg0 [unfolded run0_def]
  have ok: "forward L0 ((model_of cfg0)\<lparr>training := False\<rparr>) ex0 0 =
     Inr ((fst (fst (projr (forward L0 ((model_of cfg0)\<lparr>training := False\<rparr>) ex0 0))),
           snd (fst (projr (forward L0 ((model_of cfg0)\<lparr>training := False\<rparr>) ex0 0)))),
          snd (projr (forward L0 ((model_of cfg0)\<lparr>training := False\<rparr>) ex0 0)))"
    by (rule Inr_projr [OF f(1)])
  from forward_output_packaging [OF ok]
  have a: "targets_out (fst (fst (projr (forward L0 ((model_of cfg0)\<lparr>training := False\<rparr>) ex0 0))))
            = targets ex0"
    and b: "chunk_target_acc (fst (fst (projr (forward L0 ((model_of cfg0)\<lparr>training := False\<rparr>) ex0 0))))
            = chunk_any_acc (fst (fst (projr (forward L0 ((model_of cfg0)\<lparr>training := False\<rparr>) ex0 0))))"
    by blast+
  show ?thesis
    unfolding run0_def
    by (intro conjI, rule ok, rule a, rule f(3), simp only: b [symmetric] f(3))
qed

section \<open>Frozen embeddings\<close>




text \<open>
  C6: with \<open>fix_embeddings\<close> the word-embedding table of the constructed model does not
  require a gradient, a parameter-update step leaves its weight as it was passed in, and the
  table is still among the parameter tables of the model. Without \<open>fix_embeddings\<close> a table
  that requires a gradient is updated by the step.
\<close>

theorem frozen_embeddings_not_updated:
  assumes "snd (DrQA_init cfg w c) = Inr m"
  shows "(fix_embeddings cfg \<longrightarrow>
            weight (w_embedding (parameter_update_step upd m)) = weight w
          \<and> w_embedding m \<in> set (parameter_tables m)
          \<and> \<not> requires_grad (w_embedding m))
       \<and> (\<not> fix_embeddings cfg \<and> requires_grad w \<longrightarrow>
            weight (w_embedding (parameter_update_step upd m)) = upd (weight w))"
  by (simp add: DrQA_init_fields [OF assms] parameter_update_step_def update_table_def
      parameter_tables_def)

theorem frozen_embeddings_not_updated_witness:
  "snd (DrQA_init (cfg0\<lparr>fix_embeddings := True\<rparr>) emb0 None)
     = Inr (model_of (cfg0\<lparr>fix_embeddings := True\<rparr>))
   \<and> snd (DrQA_init cfg0 emb0 None) = Inr (model_of cfg0)
   \<and> at2 (weight (w_embedding (parameter_update_step add_one
                                  (model_of (cfg0\<lparr>fix_embeddings := True\<rparr>))))) 1 0 = 1
   \<and> at2 (weight (w_embedding (parameter_update_step add_one (model_of cfg0)))) 1 0 = 2"
proof -
  have ok1: "snd (DrQA_init (cfg0\<lparr>fix_embeddings := True\<rparr>) emb0 None)
     = Inr (model_of (cfg0\<lparr>fix_embeddings := True\<rparr>))"
    by (simp add: model_of_def DrQA_init_def Let_def cfg0_def RNN_TYPES_lstm emb0_simps)
  have ok0: "snd (DrQA_init cfg0 emb0 None) = Inr (model_of cfg0)"
    by (simp add: model_of_def DrQA_init_def Let_def cfg0_def RNN_TYPES_lstm emb0_simps)
  have f: "fix_embeddings (cfg0\<lparr>fix_embeddings := True\<rparr>)" "\<not> fix_embeddings cfg0"
    "requires_grad emb0"
    by (simp_all add: cfg0_def emb0_def)
  show ?thesis
    using ok1 ok0 frozen_embeddings_not_updated [OF ok1, of add_one]
      frozen_embeddings_not_updated [OF ok0, of add_one] f
    by (simp add: add_one_def emb0_def of_rows_def)
qed

section \<open>The character lookup table\<close>

lemma model_of_char:
  "model_of (cfg0\<lparr>char_embed := 1\<rparr>) =
     \<lparr>config = cfg0\<lparr>char_embed := 1\<rparr>, w_embedding = emb0,
      char_layer_mod = Some \<lparr>cl_char_embedding = None, cl_input_size = 1, cl_hidden_size = 1,
                              cl_layer_type = ''cnn'', cl_dropout = 0,
                              cl_variational_dropout = False, cl_filter_height = 5\<rparr>,
      qemb_match = None, doc_linear = None, q_linear = None,
      doc_rnn = new_stacked_brnn (cfg0\<lparr>char_embed := 1\<rparr>) 3 LSTM,
      question_rnn = new_stacked_brnn (cfg0\<lparr>char_embed := 1\<rparr>) 3 LSTM,
      doc_self_attn_mod = None, self_attn = None,
      start_attn = \<lparr>x_size = 6, y_size = 6\<rparr>, end_attn = \<lparr>x_size = 6, y_size = 6\<rparr>,
      training = True\<rparr>"
  by (simp add: model_of_def DrQA_init_def Let_def cfg0_def RNN_TYPES_lstm embedding_dim_emb0)

lemma run_char_facts:
  "\<not> isl run_char"
  "at2 (weight (the (c_layer_lookup (snd (fst (projr run_char)))))) 1 0 = 7"
  unfolding run_char_def model_of_char
  by (simp_all add: forward_defs torch_defs example_defs ex_char_def lookup0_def Let_def)

lemma set_rows_from_1_InrD:
  assumes "set_rows_from_1 g e v f = Inr e'"
  shows "obj_id e' = obj_id e"
    and "rows2 (weight e') = rows2 (weight e)" and "cols2 (weight e') = cols2 (weight e)"
    and "\<forall>i<rows2 (weight e'). \<forall>j<cols2 (weight e').
           at2 (weight e') i j = (if i = 0 then at2 (weight e) 0 j
                                  else at2 v (bidx (rows2 v) (i - 1)) (bidx (cols2 v) j))"
    and "requires_grad e' = (requires_grad e \<or> (g \<and> f))"
    and "is_leaf e' = (is_leaf e \<and> \<not> (g \<and> f))"
    and "\<not> (g \<and> requires_grad e \<and> is_leaf e)"
  using assms by (auto simp: set_rows_from_1_def Let_def split: if_splits)

lemma forward_split:
  "forward L m ex =
     bindE (embed_words L m ex) (\<lambda>(xq_emb, xd_emb).
     bindE (char_embeddings L m ex xq_emb xd_emb) (after_char L m))"
  by (simp add: forward_def after_char_def)

lemma forward_split_InrD:
  assumes "forward L m ex r = Inr ((out, ex'), r')"
  shows "\<exists>xq_emb xd_emb r1 xq1 xd1 ex1 r2.
           embed_words L m ex r = Inr ((xq_emb, xd_emb), r1)
         \<and> char_embeddings L m ex xq_emb xd_emb r1 = Inr ((xq1, xd1, ex1), r2)
         \<and> after_char L m (xq1, xd1, ex1) r2 = Inr ((out, ex'), r')"
  using assms unfolding forward_split
  by (simp add: eff_iffs split_paired_all split: prod.splits)

lemma after_char_example:
  assumes "after_char L m (q, d, ex1) r = Inr ((out, ex'), r')"
  shows "ex' = ex1"
  using assms unfolding after_char_def
  by (auto simp: eff_iffs Let_def split: prod.splits)

text \<open>
  C4, as stated: with character embedding on, forward writes into no weight that outlives
  the call. Line 137 assigns the fresh encodings to rows 1 and up of the weight of the
  caller's lookup table: on \<open>ex_char\<close> the entry in row 1 is 0 before the call and 7, the
  encoding that the stand-in character layer returns, after it.
\<close>

theorem forward_writes_lookup_weight:
  "\<not> isl run_char
   \<and> at2 (weight (the (c_layer_lookup ex_char))) 1 0 = 0
   \<and> at2 (weight (the (c_layer_lookup (snd (fst (projr run_char)))))) 1 0 = 7"
  using run_char_facts by (simp add: ex_char_def lookup0_def of_rows_def)

text \<open>
  C4, amended: with character embedding on, every call of forward that returns has called the
  character layer on this call's \<open>c_emb\<close> and \<open>c_emb_mask\<close> and has overwritten, in place,
  rows 1 and up of the weight of the example's \<open>c_layer_lookup\<close> with the encodings it
  returned (broadcast as torch does). Row 0, the shape and the identity of the table are as
  before; the weight requires a gradient afterwards if it did, or if gradients are enabled
  and the encodings require one, and in the latter case it is no longer a leaf. The call
  then indexes the written table with \<open>xqc\<close> and \<open>xdc\<close> and appends the results to the word
  embeddings, and the rest of forward runs on these. The example is otherwise unchanged.
\<close>

theorem forward_char_lookup_overwritten:
  assumes "0 < char_embed (config m)" and "forward L m ex r = Inr ((out, ex'), r')"
  shows "\<exists>xq_emb xd_emb r1 cl ce cm xc_rep r2 lookup lookup' qc xqc_emb dc xdc_emb xq1 xd1.
           embed_words L m ex r = Inr ((xq_emb, xd_emb), r1)
         \<and> char_layer_mod m = Some cl \<and> c_emb ex = Some ce \<and> c_emb_mask ex = Some cm
         \<and> char_layer_call L cl (training m) ce cm r1 = Inr (xc_rep, r2)
         \<and> c_layer_lookup ex = Some lookup
         \<and> \<not> (grad_enabled L \<and> requires_grad lookup \<and> is_leaf lookup)
         \<and> ex' = ex\<lparr>c_layer_lookup := Some lookup'\<rparr>
         \<and> obj_id lookup' = obj_id lookup
         \<and> rows2 (weight lookup') = rows2 (weight lookup)
         \<and> cols2 (weight lookup') = cols2 (weight lookup)
         \<and> (\<forall>i<rows2 (weight lookup'). \<forall>j<cols2 (weight lookup').
               at2 (weight lookup') i j
                 = (if i = 0 then at2 (weight lookup) 0 j
                    else at2 xc_rep (bidx (rows2 xc_rep) (i - 1)) (bidx (cols2 xc_rep) j)))
         \<and> requires_grad lookup'
             = (requires_grad lookup \<or> (grad_enabled L \<and> char_layer_requires_grad L cl))
         \<and> is_leaf lookup'
             = (is_leaf lookup \<and> \<not> (grad_enabled L \<and> char_layer_requires_grad L cl))
         \<and> xqc ex = Some qc \<and> Embedding_call lookup' qc = Inr xqc_emb
         \<and> xdc ex = Some dc \<and> Embedding_call lookup' dc = Inr xdc_emb
         \<and> cat_dim2 xq_emb xqc_emb = Inr xq1 \<and> cat_dim2 xd_emb xdc_emb = Inr xd1
         \<and> after_char L m (xq1, xd1, ex') r2 = Inr ((out, ex'), r')"
proof -
  from forward_split_InrD [OF assms(2)]
  obtain xq_emb xd_emb r1 xq1 xd1 ex1 r2 where
    ew: "embed_words L m ex r = Inr ((xq_emb, xd_emb), r1)"
    and ch: "char_embeddings L m ex xq_emb xd_emb r1 = Inr ((xq1, xd1, ex1), r2)"
    and ac: "after_char L m (xq1, xd1, ex1) r2 = Inr ((out, ex'), r')"
    by blast
  have ex1: "ex1 = ex'"
    using after_char_example [OF ac] by simp
  from char_embeddings_InrD [OF ch] assms(1)
  obtain cl ce cm xc_rep lookup lookup' qc xqc_emb dc xdc_emb where
    a: "char_layer_mod m = Some cl" "c_emb ex = Some ce" "c_emb_mask ex = Some cm"
      "char_layer_call L cl (training m) ce cm r1 = Inr (xc_rep, r2)"
      "c_layer_lookup ex = Some lookup"
      "ex1 = ex\<lparr>c_layer_lookup := Some lookup'\<rparr>"
      "xqc ex = Some qc" "Embedding_call lookup' qc = Inr xqc_emb"
      "xdc ex = Some dc" "Embedding_call lookup' dc = Inr xdc_emb"
      "cat_dim2 xq_emb xqc_emb = Inr xq1" "cat_dim2 xd_emb xdc_emb = Inr xd1"
    and w: "set_rows_from_1 (grad_enabled L) lookup xc_rep
              (grad_enabled L \<and> char_layer_requires_grad L cl) = Inr lookup'"
    by auto
  note s = set_rows_from_1_InrD [OF w]
  have rg: "requires_grad lookup'
             = (requires_grad lookup \<or> (grad_enabled L \<and> char_layer_requires_grad L cl))"
    using s(5) by blast
  have lf: "is_leaf lookup'
             = (is_leaf lookup \<and> \<not> (grad_enabled L \<and> char_layer_requires_grad L cl))"
    using s(6) by blast
  show ?thesis
    using ew a(1-5) s(7) a(6) [unfolded ex1] s(1-4) rg lf a(7-12) ac [unfolded ex1]
    by blast
qed

theorem forward_char_lookup_overwritten_witness:
  "0 < char_embed (config ((model_of (cfg0\<lparr>char_embed := 1\<rparr>))\<lparr>training := False\<rparr>))
   \<and> run_char = Inr ((fst (fst (projr run_char)), snd (fst (projr run_char))),
                       snd (projr run_char))
   \<and> (\<exists>lookup'. snd (fst (projr run_char)) = ex_char\<lparr>c_layer_lookup := Some lookup'\<rparr>
          \<and> rows2 (weight lookup') = 3 \<and> cols2 (weight lookup') = 1
          \<and> at2 (weight lookup') 0 0 = 0
          \<and> requires_grad lookup' \<and> \<not> is_leaf lookup')"
proof -
  let ?m = "(model_of (cfg0\<lparr>char_embed := 1\<rparr>))\<lparr>training := False\<rparr>"
  let ?X = "forward L0 ?m ex_char 0"
  note f = run_char_facts [unfolded run_char_def]
  have ce: "0 < char_embed (config ?m)"
    by (simp add: model_of_char)
  have ok: "?X = Inr ((fst (fst (projr ?X)), snd (fst (projr ?X))), snd (projr ?X))"
    by (rule Inr_projr [OF f(1)])
  have lk: "c_layer_lookup ex_char = Some lookup0"
    by (simp add: ex_char_def)
  have g: "grad_enabled L0" "\<And>cl. char_layer_requires_grad L0 cl"
    by (simp_all add: L0_def)
  from forward_char_lookup_overwritten [OF ce ok]
  obtain lookup lookup' cl and xc_rep :: "real ten2" where
    lk': "c_layer_lookup ex_char = Some lookup"
    and e: "snd (fst (projr ?X)) = ex_char\<lparr>c_layer_lookup := Some lookup'\<rparr>"
    and rw0: "rows2 (weight lookup') = rows2 (weight lookup)"
    and cw0: "cols2 (weight lookup') = cols2 (weight lookup)"
    and z0: "\<forall>i<rows2 (weight lookup'). \<forall>j<cols2 (weight lookup').
        at2 (weight lookup') i j
          = (if i = 0 then at2 (weight lookup) 0 j
             else at2 xc_rep (bidx (rows2 xc_rep) (i - 1)) (bidx (cols2 xc_rep) j))"
    and rg0: "requires_grad lookup'
             = (requires_grad lookup \<or> (grad_enabled L0 \<and> char_layer_requires_grad L0 cl))"
    and lf0: "is_leaf lookup'
             = (is_leaf lookup \<and> \<not> (grad_enabled L0 \<and> char_layer_requires_grad L0 cl))"
    by blast
  have l0: "lookup = lookup0"
    using lk lk' by simp
  note rw = rw0 [unfolded l0] and cw = cw0 [unfolded l0] and z = z0 [unfolded l0]
    and rg = rg0 [unfolded l0] and lf = lf0 [unfolded l0]
  have dims: "rows2 (weight lookup') = 3" "cols2 (weight lookup') = 1"
    using rw cw by (simp_all add: lookup0_def of_rows_def)
  have "0 < rows2 (weight lookup')" "0 < cols2 (weight lookup')"
    using dims by simp_all
  with z have "at2 (weight lookup') 0 0
      = (if (0::nat) = 0 then at2 (weight lookup0) 0 0
         else at2 xc_rep (bidx (rows2 xc_rep) (0 - 1)) (bidx (cols2 xc_rep) 0))"
    by blast
  then have zz: "at2 (weight lookup') 0 0 = 0"
    by (simp add: lookup0_def of_rows_def)
  have flags: "requires_grad lookup'" "\<not> is_leaf lookup'"
    using rg lf g by simp_all
  from e dims zz flags
  have "\<exists>lookup'. snd (fst (projr ?X)) = ex_char\<lparr>c_layer_lookup := Some lookup'\<rparr>
          \<and> rows2 (weight lookup') = 3 \<and> cols2 (weight lookup') = 1
          \<and> at2 (weight lookup') 0 0 = 0
          \<and> requires_grad lookup' \<and> \<not> is_leaf lookup'"
    by blast
  then show ?thesis
    unfolding run_char_def using ce ok by (intro conjI)
qed

section \<open>Dropout after the input projection\<close>

lemma divide_by_half: "x / (1 - 1 / 2) = 2 * (x::real)"
  by simp

lemma F_dropout_half_training:
  "F_dropout L z F_dropout_default_p True r = Inr (z', r') \<longleftrightarrow>
     (\<exists>keep. bernoulli L (1 / 2) (dim0 z, dim1 z, dim2 z) r = (keep, r')
        \<and> z' = z\<lparr>at3 := (\<lambda>i j k. if keep i j k then at3 z i j k * 2 else 0)\<rparr>)"
  by (auto simp: F_dropout_def F_dropout_default_p_def divide_by_half split: prod.splits cong: if_cong)

lemma relu_dims: "dim0 (relu x) = dim0 x" "dim1 (relu x) = dim1 x" "dim2 (relu x) = dim2 x"
  by (simp_all add: relu_def)

lemma project_inputs_dropout:
  assumes "resize_rnn_input (config m)" and "0 < dropout_ff (config m)" and "training m"
    and "project_inputs L m x y r = Inr ((d', q'), r')"
  shows "\<exists>dl ql d q keep1 r1 keep2.
           doc_linear m = Some dl \<and> doc_linear_call L dl x = Inr d
         \<and> q_linear m = Some ql \<and> q_linear_call L ql y = Inr q
         \<and> bernoulli L (1 / 2) (dim0 d, dim1 d, dim2 d) r = (keep1, r1)
         \<and> bernoulli L (1 / 2) (dim0 q, dim1 q, dim2 q) r1 = (keep2, r')
         \<and> d' = (relu d)\<lparr>at3 := (\<lambda>i j k. if keep1 i j k then at3 (relu d) i j k * 2 else 0)\<rparr>
         \<and> q' = (relu q)\<lparr>at3 := (\<lambda>i j k. if keep2 i j k then at3 (relu q) i j k * 2 else 0)\<rparr>"
  using assms unfolding project_inputs_def
  by (simp add: eff_iffs Let_def F_dropout_half_training relu_dims) blast

lemma project_inputs_no_dropout:
  assumes "resize_rnn_input (config m)" and "dropout_ff (config m) \<le> 0"
    and "project_inputs L m x y r = Inr ((d', q'), r')"
  shows "r' = r \<and> (\<exists>dl ql d q.
           doc_linear m = Some dl \<and> doc_linear_call L dl x = Inr d
         \<and> q_linear m = Some ql \<and> q_linear_call L ql y = Inr q
         \<and> d' = relu d \<and> q' = relu q)"
  using assms unfolding project_inputs_def
  by (auto simp: eff_iffs Let_def)

lemma stages_ignore_dropout_ff:
  "embed_words L (m\<lparr>config := (config m)\<lparr>dropout_ff := a\<rparr>\<rparr>) ex = embed_words L m ex"
  "char_embeddings L (m\<lparr>config := (config m)\<lparr>dropout_ff := a\<rparr>\<rparr>) ex q d
     = char_embeddings L m ex q d"
  "doc_rnn_input L (m\<lparr>config := (config m)\<lparr>dropout_ff := a\<rparr>\<rparr>) ex d q
     = doc_rnn_input L m ex d q"
  "encode_doc L (m\<lparr>config := (config m)\<lparr>dropout_ff := a\<rparr>\<rparr>) ex x = encode_doc L m ex x"
  "merge_question L (m\<lparr>config := (config m)\<lparr>dropout_ff := a\<rparr>\<rparr>) ex x
     = merge_question L m ex x"
  "span_question (c\<lparr>dropout_ff := a\<rparr>) qh dh ss = span_question c qh dh ss"
  by (simp_all add: span_question_def embed_words_def char_embeddings_def doc_rnn_input_def encode_doc_def
      merge_question_def cong: if_cong)

lemma project_inputs_dropout_ff_gate:
  assumes "0 < a" and "0 < b"
  shows "project_inputs L (m\<lparr>config := (config m)\<lparr>dropout_ff := a\<rparr>\<rparr>) x y
       = project_inputs L (m\<lparr>config := (config m)\<lparr>dropout_ff := b\<rparr>\<rparr>) x y"
  using assms by (simp add: project_inputs_def cong: if_cong)

lemma forward_dropout_ff_gate:
  assumes "0 < a" and "0 < b"
  shows "forward L (m\<lparr>config := (config m)\<lparr>dropout_ff := a\<rparr>\<rparr>) ex
       = forward L (m\<lparr>config := (config m)\<lparr>dropout_ff := b\<rparr>\<rparr>) ex"
  unfolding forward_def stages_ignore_dropout_ff project_inputs_dropout_ff_gate [OF assms]
  by (simp add: stages_ignore_dropout_ff)

lemma model_of_proj:
  "model_of cfg_proj =
     \<lparr>config = cfg_proj, w_embedding = emb0, char_layer_mod = None, qemb_match = None,
      doc_linear = Some \<lparr>in_features = 2, out_features = 3, bias = True\<rparr>,
      q_linear = Some \<lparr>in_features = 2, out_features = 3, bias = True\<rparr>,
      doc_rnn = new_stacked_brnn cfg_proj 3 LSTM,
      question_rnn = new_stacked_brnn cfg_proj 3 LSTM,
      doc_self_attn_mod = None, self_attn = None,
      start_attn = \<lparr>x_size = 6, y_size = 6\<rparr>, end_attn = \<lparr>x_size = 6, y_size = 6\<rparr>,
      training = True\<rparr>"
  by (simp add: model_of_def DrQA_init_def Let_def cfg_proj_def cfg0_def RNN_TYPES_lstm
      embedding_dim_emb0)

lemma run_proj_facts:
  "\<not> isl run_proj"
  "snd (projr run_proj) = 2"
  "at3 (fst (fst (projr run_proj))) 0 0 0 = 6"
  unfolding run_proj_def model_of_proj
  by (simp_all add: forward_defs torch_defs example_defs tokens0_def cfg_proj_def Let_def)

text \<open>
  C10: under \<open>resize_rnn_input\<close>, when \<open>dropout_ff\<close> is positive and the model is training,
  each projected and rectified input is masked by a mask drawn with probability one half
  and its kept entries are doubled, whatever the value of \<open>dropout_ff\<close>; when \<open>dropout_ff\<close>
  is 0 (or less) the rectified projections are returned as they are and the random generator
  is not touched; and forward as a whole is the same for any two positive values of
  \<open>dropout_ff\<close>.
\<close>

theorem projection_dropout_probability:
  assumes "resize_rnn_input (config m)"
  shows "(0 < dropout_ff (config m) \<and> training m \<longrightarrow>
           (\<forall>r d' q' r'. project_inputs L m x y r = Inr ((d', q'), r') \<longrightarrow>
              (\<exists>dl ql d q keep1 r1 keep2.
                 doc_linear m = Some dl \<and> doc_linear_call L dl x = Inr d
               \<and> q_linear m = Some ql \<and> q_linear_call L ql y = Inr q
               \<and> bernoulli L (1 / 2) (dim0 d, dim1 d, dim2 d) r = (keep1, r1)
               \<and> bernoulli L (1 / 2) (dim0 q, dim1 q, dim2 q) r1 = (keep2, r')
               \<and> d' = (relu d)\<lparr>at3 := (\<lambda>i j k. if keep1 i j k then at3 (relu d) i j k * 2
                                               else 0)\<rparr>
               \<and> q' = (relu q)\<lparr>at3 := (\<lambda>i j k. if keep2 i j k then at3 (relu q) i j k * 2
                                               else 0)\<rparr>)))
       \<and> (dropout_ff (config m) \<le> 0 \<longrightarrow>
           (\<forall>r d' q' r'. project_inputs L m x y r = Inr ((d', q'), r') \<longrightarrow>
              r' = r \<and> (\<exists>dl ql d q.
                 doc_linear m = Some dl \<and> doc_linear_call L dl x = Inr d
               \<and> q_linear m = Some ql \<and> q_linear_call L ql y = Inr q
               \<and> d' = relu d \<and> q' = relu q)))
       \<and> (\<forall>a b. 0 < a \<and> 0 < b \<longrightarrow>
             forward L (m\<lparr>config := (config m)\<lparr>dropout_ff := a\<rparr>\<rparr>) ex
             = forward L (m\<lparr>config := (config m)\<lparr>dropout_ff := b\<rparr>\<rparr>) ex)"
proof (intro conjI impI allI)
  fix r d' q' r'
  assume g: "0 < dropout_ff (config m) \<and> training m"
    and p: "project_inputs L m x y r = Inr ((d', q'), r')"
  show "\<exists>dl ql d q keep1 r1 keep2.
                 doc_linear m = Some dl \<and> doc_linear_call L dl x = Inr d
               \<and> q_linear m = Some ql \<and> q_linear_call L ql y = Inr q
               \<and> bernoulli L (1 / 2) (dim0 d, dim1 d, dim2 d) r = (keep1, r1)
               \<and> bernoulli L (1 / 2) (dim0 q, dim1 q, dim2 q) r1 = (keep2, r')
               \<and> d' = (relu d)\<lparr>at3 := (\<lambda>i j k. if keep1 i j k then at3 (relu d) i j k * 2
                                               else 0)\<rparr>
               \<and> q' = (relu q)\<lparr>at3 := (\<lambda>i j k. if keep2 i j k then at3 (relu q) i j k * 2
                                               else 0)\<rparr>"
    by (rule project_inputs_dropout [OF assms conjunct1 [OF g] conjunct2 [OF g] p])
next
  fix r d' q' r'
  assume g: "dropout_ff (config m) \<le> 0"
    and p: "project_inputs L m x y r = Inr ((d', q'), r')"
  show "r' = r"
    using project_inputs_no_dropout [OF assms g p] by (rule conjunct1)
  show "\<exists>dl ql d q.
                 doc_linear m = Some dl \<and> doc_linear_call L dl x = Inr d
               \<and> q_linear m = Some ql \<and> q_linear_call L ql y = Inr q
               \<and> d' = relu d \<and> q' = relu q"
    using project_inputs_no_dropout [OF assms g p] by (rule conjunct2)
next
  fix a b :: real
  assume "0 < a \<and> 0 < b"
  then show "forward L (m\<lparr>config := (config m)\<lparr>dropout_ff := a\<rparr>\<rparr>) ex
             = forward L (m\<lparr>config := (config m)\<lparr>dropout_ff := b\<rparr>\<rparr>) ex"
    by (simp add: forward_dropout_ff_gate)
qed

theorem projection_dropout_probability_witness:
  "resize_rnn_input (config (model_of cfg_proj))
   \<and> 0 < dropout_ff (config (model_of cfg_proj)) \<and> training (model_of cfg_proj)
   \<and> run_proj = Inr ((fst (fst (projr run_proj)), snd (fst (projr run_proj))),
                       snd (projr run_proj))
   \<and> at3 (fst (fst (projr run_proj))) 0 0 0 = 6
   \<and> (\<exists>d keep1 r1.
         bernoulli L0 (1 / 2) (dim0 d, dim1 d, dim2 d) 0 = (keep1, r1)
       \<and> fst (fst (projr run_proj))
           = (relu d)\<lparr>at3 := (\<lambda>i j k. if keep1 i j k then at3 (relu d) i j k * 2 else 0)\<rparr>)"
proof -
  let ?m = "model_of cfg_proj"
  let ?P = "project_inputs L0 ?m tokens0 tokens0 0"
  note f = run_proj_facts [unfolded run_proj_def]
  have rs: "resize_rnn_input (config ?m)" and ff: "0 < dropout_ff (config ?m)"
    and tr: "training ?m"
    by (simp_all add: model_of_proj) (simp_all add: cfg_proj_def)
  have ok: "?P = Inr ((fst (fst (projr ?P)), snd (fst (projr ?P))), snd (projr ?P))"
    by (rule Inr_projr [OF f(1)])
  from projection_dropout_probability [OF rs, of L0 tokens0 tokens0] ff tr
  have "\<forall>r d' q' r'. project_inputs L0 ?m tokens0 tokens0 r = Inr ((d', q'), r') \<longrightarrow>
              (\<exists>dl ql d q keep1 r1 keep2.
                 doc_linear ?m = Some dl \<and> doc_linear_call L0 dl tokens0 = Inr d
               \<and> q_linear ?m = Some ql \<and> q_linear_call L0 ql tokens0 = Inr q
               \<and> bernoulli L0 (1 / 2) (dim0 d, dim1 d, dim2 d) r = (keep1, r1)
               \<and> bernoulli L0 (1 / 2) (dim0 q, dim1 q, dim2 q) r1 = (keep2, r')
               \<and> d' = (relu d)\<lparr>at3 := (\<lambda>i j k. if keep1 i j k then at3 (relu d) i j k * 2
                                               else 0)\<rparr>
               \<and> q' = (relu q)\<lparr>at3 := (\<lambda>i j k. if keep2 i j k then at3 (relu q) i j k * 2
                                               else 0)\<rparr>)"
    by blast
  with ok have "\<exists>d keep1 r1.
         bernoulli L0 (1 / 2) (dim0 d, dim1 d, dim2 d) 0 = (keep1, r1)
       \<and> fst (fst (projr ?P))
           = (relu d)\<lparr>at3 := (\<lambda>i j k. if keep1 i j k then at3 (relu d) i j k * 2 else 0)\<rparr>"
    by blast
  then show ?thesis
    unfolding run_proj_def using rs ff tr ok f(3) by (intro conjI)
qed

section \<open>Determinism in evaluation mode\<close>

lemma rng_free_same: "rng_free f = same_outcome f f"
  by (simp add: rng_free_def same_outcome_def)

lemma same_outcome_ret: "same_outcome (ret x) (ret x)"
  by (simp add: same_outcome_def ret_def)

lemma same_outcome_lift: "same_outcome (lift v) (lift v)"
  by (simp add: same_outcome_def lift_def split: sum.splits)

lemma same_outcome_bindE:
  assumes "same_outcome f f'" and "\<And>x. same_outcome (g x) (g' x)"
  shows "same_outcome (bindE f g) (bindE f' g')"
  unfolding same_outcome_def
proof (intro allI)
  fix r r'
  have ff: "map_sum id fst (f r) = map_sum id fst (f' r')"
    using assms(1) by (simp add: same_outcome_def)
  show "map_sum id fst (bindE f g r) = map_sum id fst (bindE f' g' r')"
  proof (cases "f r")
    case (Inl e)
    then have "f' r' = Inl e" using ff by (cases "f' r'") auto
    with Inl show ?thesis by (simp add: bindE_def)
  next
    case (Inr p)
    obtain x r1 where p: "p = (x, r1)" by (cases p)
    from Inr p ff obtain r2 where "f' r' = Inr (x, r2)"
      by (cases "f' r'") auto
    with Inr p show ?thesis
      using assms(2) [of x] by (simp add: bindE_def same_outcome_def)
  qed
qed

lemma same_outcome_if:
  assumes "c \<Longrightarrow> same_outcome a a'" and "\<not> c \<Longrightarrow> same_outcome b b'"
  shows "same_outcome (if c then a else b) (if c then a' else b')"
  using assms by simp

lemma same_outcome_prod:
  assumes "\<And>a b. same_outcome (g a b) (g' a b)"
  shows "same_outcome (case p of (a, b) \<Rightarrow> g a b) (case p of (a, b) \<Rightarrow> g' a b)"
  using assms by (cases p) simp

lemma same_outcome_F_dropout: "same_outcome (F_dropout L x p False) (F_dropout L x p False)"
  by (simp add: same_outcome_def F_dropout_def)

lemmas same_outcome_intros = same_outcome_bindE same_outcome_ret same_outcome_lift
  same_outcome_if same_outcome_prod same_outcome_F_dropout

lemma eval_deterministicD:
  assumes "eval_deterministic L"
  shows "same_outcome (layers_dropout L x p axes False) (layers_dropout L x p axes False)"
    and "same_outcome (char_layer_call L cl False ce cm) (char_layer_call L cl False ce cm)"
    and "same_outcome (qemb_match_call L d1 False x1 y1 mk) (qemb_match_call L d1 False x1 y1 mk)"
    and "same_outcome (doc_rnn_call L d2 False x1 mk) (doc_rnn_call L d2 False x1 mk)"
    and "same_outcome (question_rnn_call L d2 False x1 mk) (question_rnn_call L d2 False x1 mk)"
    and "same_outcome (doc_self_attn_call L d1 False x1 y1 mk)
           (doc_self_attn_call L d1 False x1 y1 mk)"
    and "same_outcome (self_attn_call L d3 False x1 mk) (self_attn_call L d3 False x1 mk)"
    and "same_outcome (start_attn_call L d4 False x1 y2 mk) (start_attn_call L d4 False x1 y2 mk)"
    and "same_outcome (end_attn_call L d4 False x1 y2 mk) (end_attn_call L d4 False x1 y2 mk)"
  using assms by (simp_all add: eval_deterministic_def rng_free_same)

lemma embed_words_eval:
  assumes "eval_deterministic L" and "\<not> training m"
  shows "same_outcome (embed_words L m ex) (embed_words L m ex)"
  using assms(2) unfolding embed_words_def Let_def
  by (intro same_outcome_intros)
    (simp_all add: eval_deterministicD [OF assms(1)] same_outcome_F_dropout)

lemma char_embeddings_eval:
  assumes "eval_deterministic L" and "\<not> training m"
  shows "same_outcome (char_embeddings L m ex q d) (char_embeddings L m ex q d)"
  using assms(2) unfolding char_embeddings_def Let_def
  by (intro same_outcome_intros)
    (simp_all add: eval_deterministicD [OF assms(1)] same_outcome_F_dropout)

lemma after_char_eval:
  assumes "eval_deterministic L" and "\<not> training m"
  shows "same_outcome (after_char L m v) (after_char L m v)"
  using assms(2)
  unfolding after_char_def doc_rnn_input_def project_inputs_def encode_doc_def
    merge_question_def Let_def
  by (intro same_outcome_intros)
    (simp_all add: eval_deterministicD [OF assms(1)] same_outcome_F_dropout)

lemma set_rows_from_1_again:
  assumes "set_rows_from_1 g e v f = Inr e'"
  shows "set_rows_from_1 g e' v f = Inr e'"
  using assms by (auto simp: set_rows_from_1_def Let_def fun_eq_iff split: if_splits)

lemma embed_words_lookup:
  "embed_words L m (ex\<lparr>c_layer_lookup := v\<rparr>) = embed_words L m ex"
  by (simp add: embed_words_def)

lemma same_outcome_Inr:
  assumes "same_outcome f f" and "f r = Inr (x, r1)"
  shows "\<exists>r2. f r' = Inr (x, r2)"
proof -
  have "map_sum id fst (f r') = map_sum id fst (f r)"
    using assms(1) by (simp add: same_outcome_def)
  then show ?thesis
    using assms(2) by (cases "f r'") auto
qed

lemma char_embeddings_again:
  assumes ed: "eval_deterministic L" and tr: "\<not> training m"
    and ch: "char_embeddings L m ex q0 d0 r0 = Inr ((q1, d1, ex'), r1)"
  shows "same_outcome (char_embeddings L m ex q d) (char_embeddings L m ex' q d)"
proof (cases "0 < char_embed (config m)")
  case False
  then have "ex' = ex"
    using char_embeddings_InrD [OF ch] by simp
  then show ?thesis
    using char_embeddings_eval [OF ed tr] by simp
next
  case True
  with char_embeddings_InrD [OF ch]
  obtain cl ce cm lookup lookup' and xc_rep :: "real ten2" where
    cl: "char_layer_mod m = Some cl" and ce: "c_emb ex = Some ce"
    and cm: "c_emb_mask ex = Some cm"
    and call: "char_layer_call L cl (training m) ce cm r0 = Inr (xc_rep, r1)"
    and lk: "c_layer_lookup ex = Some lookup"
    and w': "set_rows_from_1 (grad_enabled L) lookup xc_rep
               (grad_enabled L \<and> char_layer_requires_grad L cl) = Inr lookup'"
    and ex': "ex' = ex\<lparr>c_layer_lookup := Some lookup'\<rparr>"
    by (simp only: if_True) blast
  have call': "char_layer_call L cl False ce cm r0 = Inr (xc_rep, r1)"
    using call tr by simp
  show ?thesis
    unfolding same_outcome_def
  proof (intro allI)
    fix r r'
    obtain ra where a: "char_layer_call L cl False ce cm r = Inr (xc_rep, ra)"
      using same_outcome_Inr [OF eval_deterministicD(2) [OF ed] call'] by blast
    obtain rb where b: "char_layer_call L cl False ce cm r' = Inr (xc_rep, rb)"
      using same_outcome_Inr [OF eval_deterministicD(2) [OF ed] call'] by blast
    show "map_sum id fst (char_embeddings L m ex q d r)
        = map_sum id fst (char_embeddings L m ex' q d r')"
      using True tr cl ce cm lk w' set_rows_from_1_again [OF w'] a b
      by (simp add: char_embeddings_def ex' bindE_def lift_def ret_def attr_def key_def Let_def
          split: sum.splits option.splits)
  qed
qed

lemma eval_deterministic_L0: "eval_deterministic L0"
  by (simp add: eval_deterministic_def rng_free_def L0_def)

text \<open>
  C7: with the training flag off, and layers whose outcome with the flag off does not depend
  on the random generator, the outcome of forward (the error, or the returned dictionary and
  the example as the call leaves it) is the same for every state of the generator; and a
  second call, on the example as the first call left it, returns the same dictionary and
  leaves the example as it is. Every dropout of forward itself receives the training flag:
  \<open>layers.dropout\<close> at lines 128 and 129, \<open>F.dropout\<close> at lines 158 and 159.
\<close>

theorem forward_eval_deterministic:
  assumes "eval_deterministic L" and "\<not> training m"
  shows "map_sum id fst (forward L m ex r1) = map_sum id fst (forward L m ex r2)
       \<and> (\<forall>out ex' r'. forward L m ex r1 = Inr ((out, ex'), r') \<longrightarrow>
             map_sum id fst (forward L m ex' r2) = Inr (out, ex'))"
proof (intro conjI allI impI)
  have "same_outcome (forward L m ex) (forward L m ex)"
    unfolding forward_split
    by (intro same_outcome_bindE same_outcome_prod embed_words_eval [OF assms]
        char_embeddings_eval [OF assms] after_char_eval [OF assms])
  then show "map_sum id fst (forward L m ex r1) = map_sum id fst (forward L m ex r2)"
    by (simp add: same_outcome_def)
next
  fix out ex' r'
  assume f: "forward L m ex r1 = Inr ((out, ex'), r')"
  from forward_InrD [OF f]
  obtain xq_emb xd_emb ra xq1 xd1 rb where
    ch: "char_embeddings L m ex xq_emb xd_emb ra = Inr ((xq1, xd1, ex'), rb)"
    by blast
  have lk: "ex' = ex\<lparr>c_layer_lookup := c_layer_lookup ex'\<rparr>"
    by (rule char_embeddings_frame [OF ch])
  have ew: "embed_words L m ex' = embed_words L m ex"
    by (subst lk) (rule embed_words_lookup)
  have "same_outcome (forward L m ex) (forward L m ex')"
    unfolding forward_split ew
    by (intro same_outcome_bindE same_outcome_prod embed_words_eval [OF assms]
        char_embeddings_again [OF assms ch] after_char_eval [OF assms])
  then have "map_sum id fst (forward L m ex r1) = map_sum id fst (forward L m ex' r2)"
    unfolding same_outcome_def by blast
  then have "map_sum id fst (forward L m ex' r2) = map_sum id fst (forward L m ex r1)"
    by (rule sym)
  then show "map_sum id fst (forward L m ex' r2) = Inr (out, ex')"
    by (simp add: f)
qed

theorem forward_eval_deterministic_witness:
  "eval_deterministic L0
   \<and> \<not> training ((model_of (cfg0\<lparr>char_embed := 1\<rparr>))\<lparr>training := False\<rparr>)
   \<and> map_sum id fst (forward L0 ((model_of (cfg0\<lparr>char_embed := 1\<rparr>))\<lparr>training := False\<rparr>)
                         ex_char 0)
     = map_sum id fst (forward L0 ((model_of (cfg0\<lparr>char_embed := 1\<rparr>))\<lparr>training := False\<rparr>)
                         ex_char 5)
   \<and> run_char = Inr (projr run_char)
   \<and> map_sum id fst (forward L0 ((model_of (cfg0\<lparr>char_embed := 1\<rparr>))\<lparr>training := False\<rparr>)
                         (snd (fst (projr run_char))) 5)
     = Inr (fst (projr run_char))"
proof -
  let ?m = "(model_of (cfg0\<lparr>char_embed := 1\<rparr>))\<lparr>training := False\<rparr>"
  let ?X = "forward L0 ?m ex_char 0"
  note f = run_char_facts [unfolded run_char_def]
  have tr: "\<not> training ?m" by simp
  note det = forward_eval_deterministic [OF eval_deterministic_L0 tr, of ex_char 0 5]
  have ok: "?X = Inr ((fst (fst (projr ?X)), snd (fst (projr ?X))), snd (projr ?X))"
    by (rule Inr_projr [OF f(1)])
  have ok': "?X = Inr (projr ?X)"
    using f(1) by (cases ?X) auto
  from det have "\<forall>out ex' r'. ?X = Inr ((out, ex'), r') \<longrightarrow>
             map_sum id fst (forward L0 ?m ex' 5) = Inr (out, ex')"
    by (rule conjunct2)
  with ok have "map_sum id fst (forward L0 ?m (snd (fst (projr ?X))) 5)
                = Inr (fst (fst (projr ?X)), snd (fst (projr ?X)))"
    by blast
  then have again: "map_sum id fst (forward L0 ?m (snd (fst (projr ?X))) 5) = Inr (fst (projr ?X))"
    by simp
  show ?thesis
    unfolding run_char_def
    using eval_deterministic_L0 tr conjunct1 [OF det] ok' again by (intro conjI)
qed

section \<open>The shape of the scores\<close>

lemma shape_contract_dropout:
  "shape_contract L \<Longrightarrow> layers_dropout L x p axes t r = Inr (y, r') \<Longrightarrow> keeps_positions x y"
  unfolding shape_contract_def by fast

lemma shape_contract_doc_linear:
  "shape_contract L \<Longrightarrow> doc_linear_call L l x = Inr y \<Longrightarrow> keeps_positions x y"
  unfolding shape_contract_def by fast

lemma shape_contract_doc_rnn:
  "shape_contract L \<Longrightarrow> doc_rnn_call L d t x mk r = Inr (y, r') \<Longrightarrow> keeps_positions x y"
  unfolding shape_contract_def by fast

lemma shape_contract_start:
  "shape_contract L \<Longrightarrow> start_attn_call L b t x q mk r = Inr (s, r') \<Longrightarrow> scores_positions x s"
  unfolding shape_contract_def by fast

lemma shape_contract_end:
  "shape_contract L \<Longrightarrow> end_attn_call L b t x q mk r = Inr (s, r') \<Longrightarrow> scores_positions x s"
  unfolding shape_contract_def by fast

lemma keeps_positions_refl: "keeps_positions x x"
  by (simp add: keeps_positions_def)

lemma keeps_positions_trans:
  "keeps_positions x y \<Longrightarrow> keeps_positions y z \<Longrightarrow> keeps_positions x z"
  by (simp add: keeps_positions_def)

lemma cat_dim2_keeps: "cat_dim2 a b = Inr y \<Longrightarrow> keeps_positions a y"
  by (auto simp: cat_dim2_def keeps_positions_def split: if_splits)

lemma relu_keeps: "keeps_positions x (relu x)"
  by (simp add: keeps_positions_def relu_def)

lemma F_dropout_keeps: "F_dropout L x p t r = Inr (y, r') \<Longrightarrow> keeps_positions x y"
  by (auto simp: F_dropout_def keeps_positions_def split: if_splits prod.splits)

lemma Embedding_call_dims:
  "Embedding_call e ids = Inr y \<Longrightarrow> dim0 y = rows2 ids \<and> dim1 y = cols2 ids"
  by (auto simp: Embedding_call_def split: if_splits)

lemma embed_words_shape:
  assumes "shape_contract L" and "embed_words L m ex r = Inr ((q, d), r')"
  shows "dim0 d = rows2 (xd ex) \<and> dim1 d = cols2 (xd ex)"
proof -
  from assms(2) obtain d0 ra where
    e: "Embedding_call (w_embedding m) (xd ex) = Inr d0"
    and dr: "layers_dropout L d0 (dropout_emb (config m))
               (if word_dropout (config m) then [2] else []) (training m) ra = Inr (d, r')"
    unfolding embed_words_def by (auto simp: eff_iffs Let_def)
  from shape_contract_dropout [OF assms(1) dr] Embedding_call_dims [OF e]
  show ?thesis by (simp add: keeps_positions_def)
qed

lemma char_embeddings_shape:
  assumes "char_embeddings L m ex q d r = Inr ((q', d', ex'), r')"
  shows "keeps_positions d d'"
proof (cases "0 < char_embed (config m)")
  case True
  with char_embeddings_InrD [OF assms]
  obtain xdc_emb :: "real ten3" where "cat_dim2 d xdc_emb = Inr d'"
    by (simp only: if_True) blast
  then show ?thesis by (rule cat_dim2_keeps)
next
  case False
  with char_embeddings_InrD [OF assms] have "d' = d" by simp
  then show ?thesis by (simp add: keeps_positions_refl)
qed

lemma doc_rnn_input_shape:
  assumes "doc_rnn_input L m ex d q r = Inr (x, r')"
  shows "keeps_positions d x"
  using assms unfolding doc_rnn_input_def
  by (auto simp: eff_iffs keeps_positions_refl split: if_splits
      dest!: cat_dim2_keeps intro: keeps_positions_trans)

lemma project_inputs_InrD:
  assumes "resize_rnn_input (config m)"
    and "project_inputs L m x y r = Inr ((x', y'), r')"
  shows "\<exists>dl d ql q.
           doc_linear m = Some dl \<and> doc_linear_call L dl x = Inr d
         \<and> q_linear m = Some ql \<and> q_linear_call L ql y = Inr q
         \<and> (if 0 < dropout_ff (config m)
            then \<exists>r1. F_dropout L (relu d) F_dropout_default_p (training m) r = Inr (x', r1)
                    \<and> F_dropout L (relu q) F_dropout_default_p (training m) r1 = Inr (y', r')
            else x' = relu d \<and> y' = relu q \<and> r' = r)"
  using assms unfolding project_inputs_def
  by (simp add: eff_iffs Let_def split: if_splits) blast+

lemma project_inputs_shape:
  assumes "shape_contract L" and "project_inputs L m x y r = Inr ((x', y'), r')"
  shows "keeps_positions x x'"
proof (cases "resize_rnn_input (config m)")
  case False
  then show ?thesis
    using assms(2) by (simp add: project_inputs_def eff_iffs keeps_positions_refl)
next
  case True
  from project_inputs_InrD [OF True assms(2)]
  obtain dl d where d: "doc_linear_call L dl x = Inr d"
    and x': "if 0 < dropout_ff (config m)
             then \<exists>r1. F_dropout L (relu d) F_dropout_default_p (training m) r = Inr (x', r1)
             else x' = relu d"
    by (auto split: if_splits)
  have a: "keeps_positions x (relu d)"
    by (rule keeps_positions_trans [OF shape_contract_doc_linear [OF assms(1) d] relu_keeps])
  show ?thesis
  proof (cases "0 < dropout_ff (config m)")
    case False
    with x' a show ?thesis by simp
  next
    case True
    with x' obtain r1 where
      "F_dropout L (relu d) F_dropout_default_p (training m) r = Inr (x', r1)"
      by auto
    from keeps_positions_trans [OF a F_dropout_keeps [OF this]]
    show ?thesis .
  qed
qed

lemma encode_doc_shape:
  assumes "shape_contract L" and "encode_doc L m ex x r = Inr (dh, r')"
  shows "keeps_positions x dh"
proof -
  from assms(2) obtain h ra where
    h: "doc_rnn_call L (doc_rnn m) (training m) x (xd_mask ex) r = Inr (h, ra)"
    and dh: "dh = h \<or> (\<exists>w. cat_dim2 h w = Inr dh)"
    unfolding encode_doc_def
    by (auto simp: eff_iffs split: if_splits)
  have a: "keeps_positions x h"
    by (rule shape_contract_doc_rnn [OF assms(1) h])
  from dh show ?thesis
  proof
    assume "dh = h"
    with a show ?thesis by simp
  next
    assume "\<exists>w. cat_dim2 h w = Inr dh"
    then obtain w where "cat_dim2 h w = Inr dh" by blast
    from keeps_positions_trans [OF a cat_dim2_keeps [OF this]]
    show ?thesis .
  qed
qed

lemma forward_shape:
  assumes sc: "shape_contract L" and f: "forward L m ex r = Inr ((out, ex'), r')"
  shows "rows2 (score_s out) = rows2 (xd ex) \<and> cols2 (score_s out) = cols2 (xd ex)
       \<and> rows2 (score_e out) = rows2 (xd ex) \<and> cols2 (score_e out) = cols2 (xd ex)"
proof -
  from forward_InrD [OF f]
  obtain xq_emb xd_emb r1 xq1 xd1 r2 drnn r3 drnn' xq2 r4 dh r5 qh r6 ss r7 qv es where
    ew: "embed_words L m ex r = Inr ((xq_emb, xd_emb), r1)"
    and ch: "char_embeddings L m ex xq_emb xd_emb r1 = Inr ((xq1, xd1, ex'), r2)"
    and di: "doc_rnn_input L m ex' xd1 xq1 r2 = Inr (drnn, r3)"
    and pr: "project_inputs L m drnn xq1 r3 = Inr ((drnn', xq2), r4)"
    and enc: "encode_doc L m ex' drnn' r4 = Inr (dh, r5)"
    and st: "start_attn_call L (start_attn m) (training m) dh qh (xd_mask ex') r6 = Inr (ss, r7)"
    and en: "end_attn_call L (end_attn m) (training m) dh qv (xd_mask ex') r7 = Inr (es, r')"
    and out: "out = \<lparr>score_s = ss, score_e = es, targets_out = targets ex',
                   chunk_target_acc = chunk_acc_of (chunk_targets ex'),
                   chunk_any_acc = chunk_acc_of (chunk_targets ex')\<rparr>"
    by blast
  have "keeps_positions xd_emb dh"
    by (rule keeps_positions_trans [OF keeps_positions_trans [OF keeps_positions_trans
          [OF char_embeddings_shape [OF ch] doc_rnn_input_shape [OF di]]
          project_inputs_shape [OF sc pr]] encode_doc_shape [OF sc enc]])
  with embed_words_shape [OF sc ew]
  have dh: "dim0 dh = rows2 (xd ex)" "dim1 dh = cols2 (xd ex)"
    by (simp_all add: keeps_positions_def)
  from shape_contract_start [OF sc st] shape_contract_end [OF sc en] dh
  show ?thesis
    by (simp add: out scores_positions_def)
qed

lemma stages_ignore_span_dependency:
  "embed_words L (m\<lparr>config := (config m)\<lparr>span_dependency := b\<rparr>, end_attn := e\<rparr>) ex
     = embed_words L m ex"
  "char_embeddings L (m\<lparr>config := (config m)\<lparr>span_dependency := b\<rparr>, end_attn := e\<rparr>) ex q d
     = char_embeddings L m ex q d"
  "doc_rnn_input L (m\<lparr>config := (config m)\<lparr>span_dependency := b\<rparr>, end_attn := e\<rparr>) ex d q
     = doc_rnn_input L m ex d q"
  "project_inputs L (m\<lparr>config := (config m)\<lparr>span_dependency := b\<rparr>, end_attn := e\<rparr>) x y
     = project_inputs L m x y"
  "encode_doc L (m\<lparr>config := (config m)\<lparr>span_dependency := b\<rparr>, end_attn := e\<rparr>) ex x
     = encode_doc L m ex x"
  "merge_question L (m\<lparr>config := (config m)\<lparr>span_dependency := b\<rparr>, end_attn := e\<rparr>) ex x
     = merge_question L m ex x"
  by (simp_all add: embed_words_def char_embeddings_def doc_rnn_input_def project_inputs_def
      encode_doc_def merge_question_def cong: if_cong)

lemma forward_toggle_prefix:
  assumes f: "forward L m ex r = Inr ((out, ex'), r')"
    and g: "forward L (m\<lparr>config := (config m)\<lparr>span_dependency := b\<rparr>, end_attn := e\<rparr>) ex r
              = Inr ((out2, ex2), r2)"
  shows "score_s out2 = score_s out \<and> ex2 = ex'"
proof -
  let ?m = "m\<lparr>config := (config m)\<lparr>span_dependency := b\<rparr>, end_attn := e\<rparr>"
  from forward_InrD [OF f]
  obtain xq_emb xd_emb r1 xq1 xd1 ra drnn r3 drnn' xq2 r4 dh r5 qh r6 ss r7 qv es where
    ew: "embed_words L m ex r = Inr ((xq_emb, xd_emb), r1)"
    and ch: "char_embeddings L m ex xq_emb xd_emb r1 = Inr ((xq1, xd1, ex'), ra)"
    and di: "doc_rnn_input L m ex' xd1 xq1 ra = Inr (drnn, r3)"
    and pr: "project_inputs L m drnn xq1 r3 = Inr ((drnn', xq2), r4)"
    and enc: "encode_doc L m ex' drnn' r4 = Inr (dh, r5)"
    and mq: "merge_question L m ex' xq2 r5 = Inr (qh, r6)"
    and st: "start_attn_call L (start_attn m) (training m) dh qh (xd_mask ex') r6 = Inr (ss, r7)"
    and out: "out = \<lparr>score_s = ss, score_e = es, targets_out = targets ex',
                   chunk_target_acc = chunk_acc_of (chunk_targets ex'),
                   chunk_any_acc = chunk_acc_of (chunk_targets ex')\<rparr>"
    by blast
  from forward_InrD [OF g]
  obtain xq_emb' xd_emb' r1' xq1' xd1' ra' drnn2 r3' drnn2' xq2' r4' dh' r5' qh' r6' ss' r7'
    qv' es' where
    ew': "embed_words L ?m ex r = Inr ((xq_emb', xd_emb'), r1')"
    and ch': "char_embeddings L ?m ex xq_emb' xd_emb' r1' = Inr ((xq1', xd1', ex2), ra')"
    and di': "doc_rnn_input L ?m ex2 xd1' xq1' ra' = Inr (drnn2, r3')"
    and pr': "project_inputs L ?m drnn2 xq1' r3' = Inr ((drnn2', xq2'), r4')"
    and enc': "encode_doc L ?m ex2 drnn2' r4' = Inr (dh', r5')"
    and mq': "merge_question L ?m ex2 xq2' r5' = Inr (qh', r6')"
    and st': "start_attn_call L (start_attn ?m) (training ?m) dh' qh' (xd_mask ex2) r6'
                = Inr (ss', r7')"
    and out': "out2 = \<lparr>score_s = ss', score_e = es', targets_out = targets ex2,
                   chunk_target_acc = chunk_acc_of (chunk_targets ex2),
                   chunk_any_acc = chunk_acc_of (chunk_targets ex2)\<rparr>"
    by blast
  note ig = stages_ignore_span_dependency
  from ew ew' have 1: "xq_emb' = xq_emb" "xd_emb' = xd_emb" "r1' = r1"
    by (simp_all add: ig)
  from ch ch' have 2: "xq1' = xq1" "xd1' = xd1" "ex2 = ex'" "ra' = ra"
    by (simp_all add: ig 1)
  from di di' have 3: "drnn2 = drnn" "r3' = r3"
    by (simp_all add: ig 2)
  from pr pr' have 4: "drnn2' = drnn'" "xq2' = xq2" "r4' = r4"
    by (simp_all add: ig 2 3)
  from enc enc' have 5: "dh' = dh" "r5' = r5"
    by (simp_all add: ig 2 4)
  from mq mq' have 6: "qh' = qh" "r6' = r6"
    by (simp_all add: ig 2 4 5)
  from st st' have "ss' = ss"
    by (simp add: 2 5 6)
  then show ?thesis
    by (simp add: out out' 2)
qed

lemma DrQA_init_toggle:
  assumes i0: "snd (DrQA_init (cfg\<lparr>span_dependency := False\<rparr>) w c) = Inr m0"
    and i1: "snd (DrQA_init (cfg\<lparr>span_dependency := True\<rparr>) w c) = Inr m1"
  shows "m1 = m0\<lparr>config := (config m0)\<lparr>span_dependency := True\<rparr>, end_attn := end_attn m1\<rparr>"
proof -
  obtain cls where cls: "RNN_TYPES (rnn_type cfg) = Some cls"
    using DrQA_init_Inr(1) [OF i0] by auto
  have qm: "(question_merge cfg \<noteq> ''avg'' \<and> question_merge cfg \<noteq> ''self_attn'') = False"
    using DrQA_init_Inr(2) [OF i0] by simp
  have lf: "(fix_embeddings cfg \<and> \<not> is_leaf w) = False"
    using DrQA_init_Inr(3) [OF i0] by simp
  have m0: "m0 = projr (snd (DrQA_init (cfg\<lparr>span_dependency := False\<rparr>) w c))"
    using i0 by simp
  have m1: "m1 = projr (snd (DrQA_init (cfg\<lparr>span_dependency := True\<rparr>) w c))"
    using i1 by simp
  show ?thesis
    unfolding m0 m1
    by (simp add: DrQA_init_def Let_def cls qm lf new_stacked_brnn_def)
qed

lemma shape_contract_L0: "shape_contract L0"
  by (auto simp: shape_contract_def L0_def keeps_positions_def scores_positions_def linear0_def
      uniform_scores_def split: if_splits)

lemma init_cfg0_toggled:
  "snd (DrQA_init (cfg0\<lparr>span_dependency := False\<rparr>) emb0 None) = Inr (model_of cfg0)"
  "snd (DrQA_init (cfg0\<lparr>span_dependency := True\<rparr>) emb0 None)
     = Inr (model_of (cfg0\<lparr>span_dependency := True\<rparr>))"
  by (simp_all add: model_of_def DrQA_init_def Let_def cfg0_def RNN_TYPES_lstm emb0_simps)

text \<open>
  C8: take two models built from configurations that differ only in \<open>span_dependency\<close>, layers
  that keep the batch size and the sequence length and scorers that return one score per
  document position, and run forward on the same example from the same state of the random
  generator. When both calls return, the start scores and the end scores of both have the
  shape (batch, document length) of the document ids, the start scores are the same tensor
  in both, and the example is left the same; the flag reaches only what the end scorer
  receives.
\<close>

theorem span_dependency_keeps_output_shape:
  assumes sc: "shape_contract L"
    and i0: "snd (DrQA_init (cfg\<lparr>span_dependency := False\<rparr>) w c) = Inr m0"
    and i1: "snd (DrQA_init (cfg\<lparr>span_dependency := True\<rparr>) w c) = Inr m1"
    and f0: "forward L (m0\<lparr>training := t\<rparr>) ex r = Inr ((out0, ex0'), r0)"
    and f1: "forward L (m1\<lparr>training := t\<rparr>) ex r = Inr ((out1, ex1'), r1)"
  shows "rows2 (score_s out0) = rows2 (xd ex) \<and> cols2 (score_s out0) = cols2 (xd ex)
       \<and> rows2 (score_e out0) = rows2 (xd ex) \<and> cols2 (score_e out0) = cols2 (xd ex)
       \<and> rows2 (score_s out1) = rows2 (xd ex) \<and> cols2 (score_s out1) = cols2 (xd ex)
       \<and> rows2 (score_e out1) = rows2 (xd ex) \<and> cols2 (score_e out1) = cols2 (xd ex)
       \<and> score_s out1 = score_s out0 \<and> ex1' = ex0'"
proof -
  have m1: "m1\<lparr>training := t\<rparr>
            = (m0\<lparr>training := t\<rparr>)\<lparr>config := (config (m0\<lparr>training := t\<rparr>))\<lparr>span_dependency := True\<rparr>,
                                  end_attn := end_attn m1\<rparr>"
    by (subst DrQA_init_toggle [OF i0 i1]) simp
  from forward_toggle_prefix [OF f0 f1 [unfolded m1]]
  have "score_s out1 = score_s out0 \<and> ex1' = ex0'" .
  with forward_shape [OF sc f0] forward_shape [OF sc f1]
  show ?thesis by simp
qed

theorem span_dependency_keeps_output_shape_witness:
  "shape_contract L0
   \<and> snd (DrQA_init (cfg0\<lparr>span_dependency := False\<rparr>) emb0 None) = Inr (model_of cfg0)
   \<and> snd (DrQA_init (cfg0\<lparr>span_dependency := True\<rparr>) emb0 None)
       = Inr (model_of (cfg0\<lparr>span_dependency := True\<rparr>))
   \<and> run0 cfg0 False = Inr (projr (run0 cfg0 False))
   \<and> run0 (cfg0\<lparr>span_dependency := True\<rparr>) False
       = Inr (projr (run0 (cfg0\<lparr>span_dependency := True\<rparr>) False))
   \<and> rows2 (score_e (fst (fst (projr (run0 cfg0 False))))) = 2
   \<and> cols2 (score_e (fst (fst (projr (run0 cfg0 False))))) = 2
   \<and> rows2 (score_e (fst (fst (projr (run0 (cfg0\<lparr>span_dependency := True\<rparr>) False))))) = 2
   \<and> cols2 (score_e (fst (fst (projr (run0 (cfg0\<lparr>span_dependency := True\<rparr>) False))))) = 2
   \<and> score_s (fst (fst (projr (run0 (cfg0\<lparr>span_dependency := True\<rparr>) False))))
       = score_s (fst (fst (projr (run0 cfg0 False))))"
proof -
  let ?X0 = "forward L0 ((model_of cfg0)\<lparr>training := False\<rparr>) ex0 0"
  let ?X1 = "forward L0 ((model_of (cfg0\<lparr>span_dependency := True\<rparr>))\<lparr>training := False\<rparr>) ex0 0"
  note a = run0_cfg0 [unfolded run0_def]
  note b = run0_sd [unfolded run0_def]
  have ok0: "?X0 = Inr ((fst (fst (projr ?X0)), snd (fst (projr ?X0))), snd (projr ?X0))"
    by (rule Inr_projr [OF a(1)])
  have ok1: "?X1 = Inr ((fst (fst (projr ?X1)), snd (fst (projr ?X1))), snd (projr ?X1))"
    by (rule Inr_projr [OF b(1)])
  have xd: "rows2 (xd ex0) = 2" "cols2 (xd ex0) = 2"
    by (simp_all add: ex0_def of_rows_def)
  note shape = span_dependency_keeps_output_shape
    [OF shape_contract_L0 init_cfg0_toggled ok0 ok1, unfolded xd]
  have p0: "?X0 = Inr (projr ?X0)" using a(1) by (cases ?X0) auto
  have p1: "?X1 = Inr (projr ?X1)" using b(1) by (cases ?X1) auto
  show ?thesis
    unfolding run0_def
    using shape_contract_L0 init_cfg0_toggled p0 p1 shape
    by (intro conjI) blast+
qed

end
